theory Spec2Isabelle
  imports
    Complex_Main
    "HOL-Library.AList"
    "HOL-Library.Char_ord"
    "HOL-Library.List_Lexorder"
    "HOL-Library.Multiset"
    "HOL-Library.Log_Nat"
begin

section \<open>JavaScript values\<close>

text \<open>
  The record store of \<^verbatim>\<open>src/api/localDb.js\<close> keeps plain JSON-like objects. A value is
  one of the constructors below; \<open>JUndef\<close> is \<^verbatim>\<open>undefined\<close>, which is also what reading
  an absent property gives. A number is the exact rational value of a binary64 double
  (the arithmetic that rounds is in the section on numbers). An object is the list of
  its properties in insertion order; reading a property takes the last binding of the
  key, as in an object literal that names a key twice.
\<close>

datatype jv =
    JUndef
  | JNull
  | JBool bool
  | JNum rat
  | JStr string
  | JArr "jv list"
  | JObj "(string \<times> jv) list"

type_synonym jobj = "(string \<times> jv) list"

definition obj_get :: "jobj \<Rightarrow> string \<Rightarrow> jv" where
  "obj_get ob k = (case map_of (rev ob) k of None \<Rightarrow> JUndef | Some v \<Rightarrow> v)"

definition obj_keys :: "jobj \<Rightarrow> string set" where
  "obj_keys ob = fst ` set ob"

text \<open>
  \<^verbatim>\<open>{ ...base, ...ext }\<close>: every property of \<open>ext\<close> is assigned onto the object built so
  far; a key that is already there keeps its place and takes the new value, a new key
  goes to the end.
\<close>

definition spread :: "jobj \<Rightarrow> jobj \<Rightarrow> jobj" where
  "spread base ext = fold (\<lambda>(k, v). AList.update k v) ext base"

text \<open>\<^verbatim>\<open>Object.entries(ob)\<close>: one entry per key.\<close>

definition obj_entries :: "jobj \<Rightarrow> jobj" where
  "obj_entries ob = spread [] ob"

text \<open>
  \<^verbatim>\<open>a === b\<close>. Primitives are compared by value. Arrays and objects are compared by
  reference in JavaScript; the store holds values, not references, and two array or
  object values met in different places are taken to be different references.
\<close>

fun strict_eq :: "jv \<Rightarrow> jv \<Rightarrow> bool" where
  "strict_eq JUndef JUndef = True"
| "strict_eq JNull JNull = True"
| "strict_eq (JBool a) (JBool b) = (a = b)"
| "strict_eq (JNum a) (JNum b) = (a = b)"
| "strict_eq (JStr a) (JStr b) = (a = b)"
| "strict_eq _ _ = False"

text \<open>
  \<^verbatim>\<open>a > b\<close>. Two strings are compared code unit by code unit, a proper prefix being
  smaller. Otherwise both sides are read as numbers: \<^verbatim>\<open>undefined\<close> is NaN, \<^verbatim>\<open>null\<close> is 0,
  \<^verbatim>\<open>false\<close> and \<^verbatim>\<open>true\<close> are 0 and 1, and a comparison with NaN is false. The coercion
  of a string, an array or an object to a number is not modelled: it reads as NaN here.
\<close>

fun to_number :: "jv \<Rightarrow> rat option" where
  "to_number JUndef = None"
| "to_number JNull = Some 0"
| "to_number (JBool b) = Some (if b then 1 else 0)"
| "to_number (JNum n) = Some n"
| "to_number (JStr s) = None"
| "to_number (JArr xs) = None"
| "to_number (JObj ob) = None"

definition js_gt :: "jv \<Rightarrow> jv \<Rightarrow> bool" where
  "js_gt a b =
     (case (a, b) of
        (JStr x, JStr y) \<Rightarrow> y < x
      | _ \<Rightarrow> (case (to_number a, to_number b) of
                (Some x, Some y) \<Rightarrow> y < x
              | _ \<Rightarrow> False))"

section \<open>Array.prototype.sort with a comparison function\<close>

text \<open>
  \<^verbatim>\<open>copy.sort(cmp)\<close> is a stable sort. The model is insertion sort: the elements are
  taken from left to right, and each one is put into the sorted part after every
  element that it is not smaller than. When \<open>cmp\<close> is a consistent comparison every
  stable sort gives this same list. When it is not, the language leaves the result to
  the engine, and this function is one possible engine.
\<close>

fun sort_insert :: "('a \<Rightarrow> 'a \<Rightarrow> int) \<Rightarrow> 'a \<Rightarrow> 'a list \<Rightarrow> 'a list" where
  "sort_insert cmp x [] = [x]"
| "sort_insert cmp x (y # ys) =
     (if cmp x y < 0 then x # y # ys else y # sort_insert cmp x ys)"

definition array_sort :: "('a \<Rightarrow> 'a \<Rightarrow> int) \<Rightarrow> 'a list \<Rightarrow> 'a list" where
  "array_sort cmp xs = foldl (\<lambda>acc x. sort_insert cmp x acc) [] xs"

fun findIndex :: "('a \<Rightarrow> bool) \<Rightarrow> 'a list \<Rightarrow> nat option" where
  "findIndex P [] = None"
| "findIndex P (x # xs) = (if P x then Some 0 else map_option Suc (findIndex P xs))"

section \<open>Date.prototype.toISOString\<close>

text \<open>
  A time is a number of milliseconds since the epoch. The calendar date is computed
  from the day number in the proleptic Gregorian calendar; a year from 0 to 9999 is
  printed with four digits, any other year with a sign and six digits.
\<close>

fun pad :: "nat \<Rightarrow> nat \<Rightarrow> string" where
  "pad 0 k = []"
| "pad (Suc n) k = pad n (k div 10) @ [char_of (48 + k mod 10)]"

definition civil_from_days :: "int \<Rightarrow> int \<times> int \<times> int" where
  "civil_from_days days =
     (let z = days + 719468;
          era = z div 146097;
          doe = z mod 146097;
          yoe = (doe - doe div 1460 + doe div 36524 - doe div 146096) div 365;
          y = yoe + era * 400;
          doy = doe - (365 * yoe + yoe div 4 - yoe div 100);
          mp = (5 * doy + 2) div 153;
          d = doy - (153 * mp + 2) div 5 + 1;
          m = (if mp < 10 then mp + 3 else mp - 9)
      in (if m \<le> 2 then y + 1 else y, m, d))"

definition toISOString :: "int \<Rightarrow> string" where
  "toISOString ms =
     (let (y, m, d) = civil_from_days (ms div 86400000);
          r = ms mod 86400000;
          year = (if 0 \<le> y \<and> y \<le> 9999 then pad 4 (nat y)
                  else (if y < 0 then ''-'' else ''+'') @ pad 6 (nat \<bar>y\<bar>))
      in year @ ''-'' @ pad 2 (nat m) @ ''-'' @ pad 2 (nat d) @ ''T''
           @ pad 2 (nat (r div 3600000)) @ '':'' @ pad 2 (nat ((r div 60000) mod 60)) @ '':''
           @ pad 2 (nat ((r div 1000) mod 60)) @ ''.'' @ pad 3 (nat (r mod 1000)) @ ''Z'')"

section \<open>The record store\<close>

text \<open>
  \<open>tables\<close> is \<^verbatim>\<open>memory.db.tables\<close> once loaded: a table is the array of its records.
  The store calls \<^verbatim>\<open>uuid()\<close> and reads the clock; what these calls return is not
  decided by the program, so the world carries both sources, with the number of calls
  made so far: the \<open>n\<close>-th call of \<^verbatim>\<open>uuid()\<close> returns \<open>uuid_src n\<close>, and the \<open>n\<close>-th reading
  of the clock is \<open>clock_src n\<close> milliseconds. Writing the store through to
  \<^verbatim>\<open>localStorage\<close> does not change what later calls read and is left out.
\<close>

record world =
  tables :: "string \<rightharpoonup> jobj list"
  uuid_src :: "nat \<Rightarrow> string"
  uuid_n :: nat
  clock_src :: "nat \<Rightarrow> int"
  clock_n :: nat

datatype error =
    NotFound string jv
  | UnknownFunction string
  | TypeError

definition rows :: "world \<Rightarrow> string \<Rightarrow> jobj list" where
  "rows w table = (case tables w table of None \<Rightarrow> [] | Some t \<Rightarrow> t)"

definition uuid :: "world \<Rightarrow> string \<times> world" where
  "uuid w = (uuid_src w (uuid_n w), w\<lparr>uuid_n := Suc (uuid_n w)\<rparr>)"

definition newDate :: "world \<Rightarrow> int \<times> world" where
  "newDate w = (clock_src w (clock_n w), w\<lparr>clock_n := Suc (clock_n w)\<rparr>)"

definition nowIso :: "world \<Rightarrow> string \<times> world" where
  "nowIso w = (let (ms, w1) = newDate w in (toISOString ms, w1))"

definition ensureTable :: "string \<Rightarrow> world \<Rightarrow> jobj list \<times> world" where
  "ensureTable table w =
     (case tables w table of
        None \<Rightarrow> ([], w\<lparr>tables := (tables w)(table \<mapsto> [])\<rparr>)
      | Some t \<Rightarrow> (t, w))"

definition cmp_field :: "bool \<Rightarrow> string \<Rightarrow> jobj \<Rightarrow> jobj \<Rightarrow> int" where
  "cmp_field desc field a b =
     (let av = obj_get a field; bv = obj_get b field
      in if strict_eq av bv then 0
         else (if js_gt av bv then 1 else - 1) * (if desc then - 1 else 1))"

text \<open>
  \<^verbatim>\<open>const desc = sort.startsWith("-"); const field = desc ? sort.slice(1) : sort;\<close>
\<close>

definition sort_desc :: "string \<Rightarrow> bool" where
  "sort_desc srt = (take 1 srt = ''-'')"

definition sort_field :: "string \<Rightarrow> string" where
  "sort_field srt = (if sort_desc srt then drop 1 srt else srt)"

definition sortByField :: "jobj list \<Rightarrow> string \<Rightarrow> jobj list" where
  "sortByField items srt =
     (if srt = [] then items
      else array_sort (cmp_field (sort_desc srt) (sort_field srt)) items)"

definition matchesWhere :: "jobj \<Rightarrow> jobj \<Rightarrow> bool" where
  "matchesWhere rec whr =
     list_all (\<lambda>(k, v).
        (case v of
           JUndef \<Rightarrow> True
         | JArr vs \<Rightarrow> (case obj_get rec k of
                        JArr rv \<Rightarrow> list_ex (\<lambda>x. list_ex (\<lambda>e. strict_eq e x) rv) vs
                      | _ \<Rightarrow> False)
         | _ \<Rightarrow> strict_eq (obj_get rec k) v))
       (obj_entries whr)"

text \<open>
  The options of \<^verbatim>\<open>list\<close> and \<^verbatim>\<open>filter\<close>: \<open>None\<close> is an option that is not given and
  takes the default of the source. An empty \<open>sort\<close> leaves the order as it is. The limit
  is a count.
\<close>

definition db_list :: "string \<Rightarrow> string option \<Rightarrow> nat option \<Rightarrow> world \<Rightarrow> jobj list \<times> world" where
  "db_list table srt limit w =
     (let (t, w1) = ensureTable table w
      in (take (case limit of None \<Rightarrow> 100 | Some n \<Rightarrow> n)
            (sortByField t (case srt of None \<Rightarrow> ''-created_date'' | Some s \<Rightarrow> s)), w1))"

definition db_filter ::
  "string \<Rightarrow> jobj \<Rightarrow> string option \<Rightarrow> nat option \<Rightarrow> world \<Rightarrow> jobj list \<times> world" where
  "db_filter table whr srt limit w =
     (let (t, w1) = ensureTable table w;
          filtered = filter (\<lambda>r. matchesWhere r whr) t
      in (take (case limit of None \<Rightarrow> 1000 | Some n \<Rightarrow> n)
            (sortByField filtered (case srt of None \<Rightarrow> ''-created_date'' | Some s \<Rightarrow> s)), w1))"

definition db_create :: "string \<Rightarrow> jobj \<Rightarrow> world \<Rightarrow> jobj \<times> world" where
  "db_create table data w =
     (let (t, w1) = ensureTable table w;
          (u, w2) = uuid w1;
          (c, w3) = nowIso w2;
          (m, w4) = nowIso w3;
          rec = spread [(''id'', JStr u), (''created_date'', JStr c), (''updated_date'', JStr m)] data
      in (rec, w4\<lparr>tables := (tables w4)(table \<mapsto> t @ [rec])\<rparr>))"

definition db_update :: "string \<Rightarrow> jv \<Rightarrow> jobj \<Rightarrow> world \<Rightarrow> (error + jobj) \<times> world" where
  "db_update table ident patch w =
     (let (t, w1) = ensureTable table w
      in case findIndex (\<lambda>r. strict_eq (obj_get r ''id'') ident) t of
           None \<Rightarrow> (Inl (NotFound table ident), w1)
         | Some idx \<Rightarrow>
             (let (n, w2) = nowIso w1;
                  rec = AList.update ''updated_date'' (JStr n) (spread (spread [] (t ! idx)) patch)
              in (Inr rec, w2\<lparr>tables := (tables w2)(table \<mapsto> t[idx := rec])\<rparr>)))"

definition db_remove :: "string \<Rightarrow> jv \<Rightarrow> world \<Rightarrow> jobj \<times> world" where
  "db_remove table ident w =
     (let (t, w1) = ensureTable table w
      in case findIndex (\<lambda>r. strict_eq (obj_get r ''id'') ident) t of
           None \<Rightarrow> ([(''ok'', JBool True)], w1)
         | Some idx \<Rightarrow>
             ([(''ok'', JBool True)],
              w1\<lparr>tables := (tables w1)(table \<mapsto> take idx t @ drop (Suc idx) t)\<rparr>))"

section \<open>Sequences of store operations\<close>

text \<open>
  The three mutations of the store, as values, so that a history of the store is a
  list of them. An \<^verbatim>\<open>update\<close> that throws leaves the store as the call left it.
\<close>

datatype op =
    Create string jobj
  | Update string jv jobj
  | Remove string jv

fun apply_op :: "op \<Rightarrow> world \<Rightarrow> world" where
  "apply_op (Create table data) w = snd (db_create table data w)"
| "apply_op (Update table ident patch) w = snd (db_update table ident patch w)"
| "apply_op (Remove table ident) w = snd (db_remove table ident w)"

definition run :: "op list \<Rightarrow> world \<Rightarrow> world" where
  "run ops w = fold apply_op ops w"

text \<open>The operation leaves the dates to the store: its data or patch does not set them.\<close>

fun store_dated :: "op \<Rightarrow> bool" where
  "store_dated (Create table data) =
     (''created_date'' \<notin> obj_keys data \<and> ''updated_date'' \<notin> obj_keys data)"
| "store_dated (Update table ident patch) = (''created_date'' \<notin> obj_keys patch)"
| "store_dated (Remove table ident) = True"

text \<open>The clock never goes back, as far as its ISO strings are compared.\<close>

definition clock_steady :: "world \<Rightarrow> bool" where
  "clock_steady w =
     (\<forall>m n. m \<le> n \<longrightarrow> toISOString (clock_src w m) \<le> toISOString (clock_src w n))"

text \<open>Every record has both dates, and \<open>updated_date\<close> is not before \<open>created_date\<close>.\<close>

definition dates_ordered :: "world \<Rightarrow> bool" where
  "dates_ordered w =
     (\<forall>T. \<forall>r \<in> set (rows w T). \<exists>c u.
        obj_get r ''created_date'' = JStr c \<and> obj_get r ''updated_date'' = JStr u \<and> c \<le> u)"

text \<open>No stored \<open>updated_date\<close> is later than a reading of the clock that is still to come.\<close>

definition not_ahead :: "world \<Rightarrow> bool" where
  "not_ahead w =
     (\<forall>T. \<forall>r \<in> set (rows w T). \<forall>u k.
        obj_get r ''updated_date'' = JStr u \<and> clock_n w \<le> k \<longrightarrow> u \<le> toISOString (clock_src w k))"

section \<open>Numbers\<close>

text \<open>
  A JavaScript number is a binary64 double. The model keeps the exact rational value
  of the double and rounds after every operation: \<open>fl x\<close> is the double nearest to \<open>x\<close>,
  ties going to the even significand of 53 bits. Infinities, NaN, the sign of zero and
  the subnormal range are not modelled; the numbers of this program stay between
  \<open>0\<close> and a few hundred.
\<close>

definition round_even :: "rat \<Rightarrow> int" where
  "round_even x =
     (let f = \<lfloor>x\<rfloor>; d = x - of_int f
      in if d < 1 / 2 then f else if 1 / 2 < d then f + 1 else if even f then f else f + 1)"

definition pow2 :: "int \<Rightarrow> rat" where
  "pow2 e = (if 0 \<le> e then 2 ^ nat e else 1 / 2 ^ nat (- e))"

text \<open>\<open>ilog2 x\<close> is the exponent \<open>e\<close> with \<open>2\<^sup>e \<le> x < 2\<^sup>e\<^sup>+\<^sup>1\<close>, for a positive \<open>x\<close>.\<close>

definition ilog2 :: "rat \<Rightarrow> int" where
  "ilog2 x = (if 1 \<le> x then bitlen \<lfloor>x\<rfloor> - 1 else - bitlen (\<lceil>1 / x\<rceil> - 1))"

definition fl :: "rat \<Rightarrow> rat" where
  "fl x =
     (if x = 0 then 0
      else let a = \<bar>x\<bar>; e = ilog2 a - 52
           in sgn x * of_int (round_even (a / pow2 e)) * pow2 e)"

definition js_add :: "rat \<Rightarrow> rat \<Rightarrow> rat" where
  "js_add a b = fl (a + b)"

definition js_sub :: "rat \<Rightarrow> rat \<Rightarrow> rat" where
  "js_sub a b = fl (a - b)"

definition js_mul :: "rat \<Rightarrow> rat \<Rightarrow> rat" where
  "js_mul a b = fl (a * b)"

definition js_div :: "rat \<Rightarrow> rat \<Rightarrow> rat" where
  "js_div a b = fl (a / b)"

text \<open>\<^verbatim>\<open>Math.round\<close>: the nearest integer, a half going up.\<close>

definition math_round :: "rat \<Rightarrow> int" where
  "math_round x = \<lfloor>x + 1 / 2\<rfloor>"

definition clamp01 :: "rat \<Rightarrow> rat" where
  "clamp01 n = max 0 (min 1 n)"

section \<open>Strings\<close>

text \<open>
  A string is the list of its characters. The texts of the program are ASCII, but for
  the dash in three of its messages, which is written as its three UTF-8 bytes. Case
  conversion changes the ASCII letters only.
\<close>

definition lower_char :: "char \<Rightarrow> char" where
  "lower_char c = (if CHR ''A'' \<le> c \<and> c \<le> CHR ''Z'' then char_of (of_char c + (32::nat)) else c)"

definition upper_char :: "char \<Rightarrow> char" where
  "upper_char c = (if CHR ''a'' \<le> c \<and> c \<le> CHR ''z'' then char_of (of_char c - (32::nat)) else c)"

definition toLowerCase :: "string \<Rightarrow> string" where
  "toLowerCase s = map lower_char s"

definition toUpperCase :: "string \<Rightarrow> string" where
  "toUpperCase s = map upper_char s"

text \<open>\<^verbatim>\<open>t.includes(k)\<close>: \<open>k\<close> starts at some position of \<open>t\<close>.\<close>

fun str_includes :: "string \<Rightarrow> string \<Rightarrow> bool" where
  "str_includes [] k = (k = [])"
| "str_includes (c # t) k = (take (length k) (c # t) = k \<or> str_includes t k)"

text \<open>\<^verbatim>\<open>xs.join(sep)\<close> for an array of strings.\<close>

fun str_join :: "string \<Rightarrow> string list \<Rightarrow> string" where
  "str_join sep [] = []"
| "str_join sep [x] = x"
| "str_join sep (x # y # ys) = x @ sep @ str_join sep (y # ys)"

definition en_dash :: string where
  "en_dash = [CHR 0xE2, CHR 0x80, CHR 0x93]"

definition newline :: string where
  "newline = [CHR 0x0A]"

text \<open>
  Decimal digits of a natural number, as \<^verbatim>\<open>String(n)\<close> prints an integer that is not
  negative.
\<close>

fun digits :: "nat \<Rightarrow> nat \<Rightarrow> string" where
  "digits 0 n = []"
| "digits (Suc fuel) n =
     (if n < 10 then [char_of (48 + n)] else digits fuel (n div 10) @ [char_of (48 + n mod 10)])"

definition show_nat :: "nat \<Rightarrow> string" where
  "show_nat n = digits (Suc n) n"

section \<open>Reading the fields of a record\<close>

text \<open>
  The data model gives every field a type: titles, descriptions, severities and
  sources are strings, \<open>affected_systems\<close> and \<open>tags\<close> are lists of strings, scores are
  numbers, \<open>ai_analysis\<close> is an object. The program reads the fields at these types.
  The readers below return the value when the field holds one of its type; a field
  that is absent, \<^verbatim>\<open>null\<close> or of another type reads as absent, and an element of a list
  that is not a string is passed over. What JavaScript would do with a value of
  another type (print a number into a text, fail on \<^verbatim>\<open>toLowerCase\<close> of a number) is
  outside the model.
\<close>

definition str_field :: "jobj \<Rightarrow> string \<Rightarrow> string option" where
  "str_field ob k = (case obj_get ob k of JStr s \<Rightarrow> Some s | _ \<Rightarrow> None)"

definition num_field :: "jobj \<Rightarrow> string \<Rightarrow> rat option" where
  "num_field ob k = (case obj_get ob k of JNum n \<Rightarrow> Some n | _ \<Rightarrow> None)"

definition obj_field :: "jobj \<Rightarrow> string \<Rightarrow> jobj option" where
  "obj_field ob k = (case obj_get ob k of JObj o' \<Rightarrow> Some o' | _ \<Rightarrow> None)"

definition strings_of :: "jv list \<Rightarrow> string list" where
  "strings_of xs = concat (map (\<lambda>v. case v of JStr s \<Rightarrow> [s] | _ \<Rightarrow> []) xs)"

definition str_list_field :: "jobj \<Rightarrow> string \<Rightarrow> string list option" where
  "str_list_field ob k = (case obj_get ob k of JArr xs \<Rightarrow> Some (strings_of xs) | _ \<Rightarrow> None)"

text \<open>\<^verbatim>\<open>x || d\<close> for a string \<open>x\<close> that may be absent: the empty string is falsy.\<close>

definition or_str :: "string option \<Rightarrow> string \<Rightarrow> string" where
  "or_str x d = (case x of None \<Rightarrow> d | Some s \<Rightarrow> if s = [] then d else s)"

text \<open>\<^verbatim>\<open>xs || []\<close> for a list that may be absent.\<close>

definition or_list :: "'a list option \<Rightarrow> 'a list" where
  "or_list x = (case x of None \<Rightarrow> [] | Some xs \<Rightarrow> xs)"

text \<open>A string printed into a template: an absent one prints as \<^verbatim>\<open>undefined\<close>.\<close>

definition template_str :: "string option \<Rightarrow> string" where
  "template_str x = (case x of None \<Rightarrow> ''undefined'' | Some s \<Rightarrow> s)"

section \<open>The heuristic analyzer\<close>

text \<open>
  \<^verbatim>\<open>keywordScore(text, keywords)\<close>: the number of keywords found in the lowercased text.
\<close>

definition keywordScore :: "string \<Rightarrow> string list \<Rightarrow> nat" where
  "keywordScore text keywords =
     (let t = toLowerCase text
      in foldl (\<lambda>acc k. if str_includes t k then acc + 1 else acc) 0 keywords)"

text \<open>
  The local constants of \<^verbatim>\<open>buildAnalysisFromIncident\<close>, each as a function of the
  incident. The severity table is an object literal read at the key \<open>sev\<close>, with \<open>0.66\<close>
  for a key it does not have; the names that every object inherits (such as
  \<^verbatim>\<open>constructor\<close>) are not severities of the data model.
\<close>

definition incident_title :: "jobj \<Rightarrow> string" where
  "incident_title incident = or_str (str_field incident ''title'') ''Incident''"

definition incident_desc :: "jobj \<Rightarrow> string" where
  "incident_desc incident =
     or_str (str_field incident ''description'') (or_str (str_field incident ''logs'') [])"

definition incident_sev :: "jobj \<Rightarrow> string" where
  "incident_sev incident = toLowerCase (or_str (str_field incident ''severity'') ''medium'')"

definition incident_systems :: "jobj \<Rightarrow> string list" where
  "incident_systems incident = or_list (str_list_field incident ''affected_systems'')"

definition isAuth :: "jobj \<Rightarrow> bool" where
  "isAuth incident =
     (0 < keywordScore (incident_title incident @ '' '' @ incident_desc incident)
            [''auth'', ''login'', ''token'', ''sso''])"

definition isDb :: "jobj \<Rightarrow> bool" where
  "isDb incident =
     (0 < keywordScore (incident_title incident @ '' '' @ incident_desc incident)
            [''db'', ''database'', ''postgres'', ''mysql'', ''query'', ''timeout''])"

definition isApi :: "jobj \<Rightarrow> bool" where
  "isApi incident =
     (0 < keywordScore (incident_title incident @ '' '' @ incident_desc incident)
            [''api'', ''5xx'', ''gateway'', ''latency'', ''timeout''])"

definition baseConf :: "string \<Rightarrow> rat" where
  "baseConf sev =
     (if sev = ''critical'' then fl (78 / 100)
      else if sev = ''high'' then fl (72 / 100)
      else if sev = ''medium'' then fl (66 / 100)
      else if sev = ''low'' then fl (6 / 10)
      else fl (66 / 100))"

definition dataQualityPenalty :: "string \<Rightarrow> rat" where
  "dataQualityPenalty desc = (if desc \<noteq> [] \<and> 40 < length desc then 0 else fl (8 / 100))"

definition root_causes :: "jobj \<Rightarrow> jv list" where
  "root_causes incident =
     [JObj
        [(''cause'', JStr (if isDb incident
            then ''Database resource saturation (connections / slow queries)''
            else ''Upstream dependency degradation (timeouts / elevated error rates)'')),
         (''probability'',
            JNum (clamp01 (js_add (fl (45 / 100)) (if isDb incident then fl (15 / 100) else 0)))),
         (''evidence'', JArr
            [JStr ''Symptoms consistent with latency spikes and partial availability'',
             JStr (if incident_systems incident \<noteq> []
                   then ''Impacted systems: '' @ str_join '', '' (take 3 (incident_systems incident))
                   else ''Systems not specified'')])],
      JObj
        [(''cause'', JStr (if isAuth incident
            then ''Identity / token validation issue (SSO, cert, or token expiry)''
            else ''Recent deployment or configuration change introduced regression'')),
         (''probability'',
            JNum (clamp01 (js_add (fl (3 / 10)) (if isAuth incident then fl (2 / 10) else 0)))),
         (''evidence'', JArr
            [JStr ''Common failure mode for sudden onset incidents'',
             JStr ''Validate with change logs and auth/error traces''])],
      JObj
        [(''cause'', JStr (if isApi incident
            then ''API gateway/routing misconfiguration or rate limiting''
            else ''Infrastructure/network instability'')),
         (''probability'',
            JNum (clamp01 (js_add (fl (25 / 100)) (if isApi incident then fl (15 / 100) else 0)))),
         (''evidence'', JArr
            [JStr ''Could present as widespread 5xx/4xx bursts'',
             JStr ''Validate with edge metrics, load balancer health, and dependency graph''])]]"

definition recommendations :: "jobj \<Rightarrow> jv list" where
  "recommendations incident =
     (let sev = incident_sev incident;
          penalty = dataQualityPenalty (incident_desc incident)
      in
      [JObj
         [(''action'', JStr
             ''Check dashboards for error rates, latency, and saturation (CPU/memory/DB connections).''),
          (''priority'', JStr (if sev = ''critical'' \<or> sev = ''high'' then ''critical'' else ''high'')),
          (''confidence'', JNum (clamp01 (js_sub (fl (85 / 100)) penalty))),
          (''rationale'', JStr
             ''Quickly confirms whether the incident is systemic or isolated and identifies bottlenecks.''),
          (''risks'', JStr ''Low risk; read-only investigation.''),
          (''verification_steps'', JArr
             [JStr ''Confirm error rate and p95/p99 latency against baseline'',
              JStr ''Identify the top failing endpoint/service''])],
       JObj
         [(''action'', JStr
             ''Validate recent changes (deployments/config) and consider rollback if correlated.''),
          (''priority'', JStr (if sev = ''critical'' then ''critical'' else ''high'')),
          (''confidence'', JNum (clamp01 (js_sub (fl (72 / 100)) penalty))),
          (''rationale'', JStr ''Change correlation is frequently the fastest path to recovery.''),
          (''risks'', JStr ''Rollback may revert unrelated fixes; coordinate with release owner.''),
          (''verification_steps'', JArr
             [JStr ''Compare start time vs deployment timeline'',
              JStr (''If rollback, monitor key KPIs for recovery within 5'' @ en_dash
                    @ ''10 minutes'')])],
       JObj
         [(''action'', JStr
             ''Run targeted diagnostics: dependency health checks, DB query sampling, and auth/token validation.''),
          (''priority'', JStr (if sev = ''low'' then ''medium'' else ''high'')),
          (''confidence'', JNum (clamp01 (js_sub (fl (7 / 10)) penalty))),
          (''rationale'', JStr ''Narrows root cause and supports durable fix.''),
          (''risks'', JStr ''Some diagnostics may increase load if run broadly.''),
          (''verification_steps'', JArr
             [JStr ''Run on a single canary instance first'',
              JStr ''Confirm no additional load/regression''])]])"

definition buildAnalysisFromIncident :: "jobj \<Rightarrow> jobj" where
  "buildAnalysisFromIncident incident =
     (let title = incident_title incident;
          desc = incident_desc incident;
          sev = incident_sev incident;
          confidence_score = clamp01 (js_sub (baseConf sev) (dataQualityPenalty desc))
      in
      [(''summary'', JStr (title @ '': Preliminary assessment indicates '' @ toUpperCase sev
          @ '' impact with likely dependency or capacity-related degradation. Prioritize stabilization and change correlation, then validate the most probable root cause with targeted diagnostics.'')),
       (''root_causes'', JArr (root_causes incident)),
       (''recommendations'', JArr (recommendations incident)),
       (''estimated_recovery_time'', JStr
          (if sev = ''critical'' then ''30'' @ en_dash @ ''90 minutes''
           else if sev = ''high'' then ''1'' @ en_dash @ ''3 hours''
           else ''Same day'')),
       (''confidence_score'', JNum confidence_score),
       (''data_quality_notes'', JStr
          (if desc \<noteq> [] \<and> 40 < length desc
           then ''Sufficient context provided for a first-pass assessment. Add exact timestamps, impacted endpoints, and key logs for higher confidence.''
           else ''Limited context provided. Add exact error messages, graphs (latency/error rate), and recent change details for a higher-confidence assessment.'')),
       (''limitations'', JArr
          [JStr ''Local analysis is heuristic and may not reflect production telemetry.'',
           JStr ''Assumes common incident patterns; verify against metrics and logs.''])])"

section \<open>The automation generator\<close>

text \<open>
  \<^verbatim>\<open>analysis?.confidence_score ?? 0.7\<close>: the score of the analysis when it is an object
  that has one, and \<open>0.7\<close> when the analysis or its score is absent or \<^verbatim>\<open>null\<close>.
\<close>

definition analysis_confidence :: "jv \<Rightarrow> rat" where
  "analysis_confidence analysis =
     (case analysis of
        JObj ob \<Rightarrow> (case num_field ob ''confidence_score'' of Some c \<Rightarrow> c | None \<Rightarrow> fl (7 / 10))
      | _ \<Rightarrow> fl (7 / 10))"

definition assigned_team :: "jobj \<Rightarrow> string" where
  "assigned_team incident =
     (let systems = incident_systems incident;
          source = toLowerCase (or_str (str_field incident ''source'') [])
      in if str_includes source ''network'' then ''Network Operations''
         else if list_ex (\<lambda>s. str_includes (toLowerCase s) ''db'') systems
           then ''Database Reliability''
         else if list_ex (\<lambda>s. str_includes (toLowerCase s) ''auth''
                              \<or> str_includes (toLowerCase s) ''iam'') systems
           then ''Identity & Access''
         else ''Site Reliability Engineering'')"

definition diagnostic_scripts :: "jv list" where
  "diagnostic_scripts =
     [JObj
        [(''script_name'', JStr ''Service health snapshot''),
         (''description'', JStr ''Collect a quick snapshot of key KPIs and dependency health.''),
         (''status'', JStr ''completed''),
         (''command'', JStr ''curl -s https://status.your-service.local/health | jq .''),
         (''output'', JStr (''{'' @ newline @ ''  \"status\": \"degraded\",'' @ newline
            @ ''  \"dependencies\": [{\"name\":\"db\",\"status\":\"warn\"}]'' @ newline @ ''}''))],
      JObj
        [(''script_name'', JStr ''Error-rate sampling''),
         (''description'', JStr ''Sample recent errors to identify dominant failure mode.''),
         (''status'', JStr ''completed''),
         (''command'', JStr
            ''tail -n 200 /var/log/app/error.log | grep -E \"5..|timeout|auth\" | head''),
         (''output'', JStr (''timeout contacting upstream dependency'' @ newline
            @ ''request_id=...'' @ newline))]]"

definition stakeholder_communication :: "string \<Rightarrow> string \<Rightarrow> jobj" where
  "stakeholder_communication sev team =
     [(''executive_summary'', JStr
         (if sev = ''critical''
          then ''We are currently mitigating a high-impact service incident. Teams are engaged, and initial triage suggests a dependency/capacity issue. Next update in 30 minutes.''
          else ''We are investigating a service degradation with limited scope. Initial triage is underway and we will provide updates as more information becomes available.'')),
      (''technical_details'', JStr
         ''Observed elevated error rates and latency for a subset of requests. Next steps: validate change correlation, inspect dependency health, and apply mitigation/rollback as needed.''),
      (''customer_facing'', JStr
         ''Some users may experience intermittent issues. Our team is actively working to restore full service and will provide updates as we confirm stability.''),
      (''internal_update'', JStr
         (''Triage in progress. Assigned team: '' @ team
          @ ''. Focus areas: metrics review, dependency checks, and mitigation actions.''))]"

definition buildAutomationForIncident :: "jobj \<Rightarrow> jv \<Rightarrow> jobj" where
  "buildAutomationForIncident incident analysis =
     (let sev = incident_sev incident;
          systems = incident_systems incident;
          team = assigned_team incident
      in
      [(''assigned_team'', JStr team),
       (''assignment_rationale'', JStr
          (if systems \<noteq> []
           then ''Assignment based on affected systems: '' @ str_join '', '' (take 3 systems) @ ''.''
           else ''Assignment based on incident signals and standard ownership patterns.'')),
       (''automation_confidence'',
          JNum (clamp01 (js_add (analysis_confidence analysis) (fl (1 / 10))))),
       (''diagnostic_scripts'', JArr diagnostic_scripts),
       (''stakeholder_communication'', JObj (stakeholder_communication sev team))])"

section \<open>The team assignment in the words of the specification\<close>



section \<open>The generator functions\<close>

text \<open>
  \<^verbatim>\<open>functions.invoke(name, payload)\<close> returns an object \<^verbatim>\<open>{ data: ... }\<close> or throws. Each
  generator is a function of the payload and the world; it returns the response or the
  error, and the world it leaves.
\<close>

definition response :: "jobj \<Rightarrow> jv" where
  "response d = JObj [(''data'', JObj d)]"

definition ok_false :: jv where
  "ok_false = response [(''ok'', JBool False)]"

text \<open>
  \<^verbatim>\<open>(await db.filter("Incident", { where: { id: payload.incident_id } }))[0]\<close>: the first
  record of the filtered table, if there is one.
\<close>

definition find_incident :: "jobj \<Rightarrow> world \<Rightarrow> jobj option \<times> world" where
  "find_incident payload w =
     (let (found, w1) = db_filter ''Incident'' [(''id'', obj_get payload ''incident_id'')] None None w
      in (case found of [] \<Rightarrow> None | incident # _ \<Rightarrow> Some incident, w1))"

text \<open>\<^verbatim>\<open>incident.ai_analysis || buildAnalysisFromIncident(incident)\<close>\<close>

definition analysis_of :: "jobj \<Rightarrow> jobj" where
  "analysis_of incident =
     (case obj_field incident ''ai_analysis'' of
        Some a \<Rightarrow> a
      | None \<Rightarrow> buildAnalysisFromIncident incident)"

subsection \<open>generatePredictions\<close>

definition sample :: "jobj list" where
  "sample =
     [[(''severity'', JStr ''critical''),
       (''likelihood'', JNum (fl (72 / 100))),
       (''predicted_timeframe'', JStr ''within 48-72 hours''),
       (''predicted_issue'', JStr ''PostgreSQL Connection Pool Exhaustion During Peak Hours''),
       (''description'', JStr
          ''Pattern suggests repeat saturation during peak periods; mitigate before next traffic surge.''),
       (''affected_systems'', JArr
          [JStr ''PostgreSQL Primary'', JStr ''Checkout API'', JStr ''Payment Service'',
           JStr ''Order Service'']),
       (''confidence_score'', JNum (fl (72 / 100)))],
      [(''severity'', JStr ''high''),
       (''likelihood'', JNum (fl (66 / 100))),
       (''predicted_timeframe'', JStr ''within 12-24 hours''),
       (''predicted_issue'', JStr ''API Gateway Latency Regression''),
       (''description'', JStr
          ''Early indicators show p99 rising and error-rate drift in gateway tier; validate retries and capacity.''),
       (''affected_systems'', JArr [JStr ''API Gateway'', JStr ''Lambda Functions'', JStr ''DynamoDB'']),
       (''confidence_score'', JNum (fl (66 / 100)))],
      [(''severity'', JStr ''high''),
       (''likelihood'', JNum (fl (58 / 100))),
       (''predicted_timeframe'', JStr ''within 24 hours''),
       (''predicted_issue'', JStr ''Authentication Service Memory Leak Continuation''),
       (''description'', JStr
          ''Memory usage trend could hit OOM threshold if not addressed; consider profiling and patch rollout.''),
       (''affected_systems'', JArr [JStr ''Auth Service'', JStr ''Kubernetes Cluster'']),
       (''confidence_score'', JNum (fl (58 / 100)))]]"

definition fallbackSystems :: "string list" where
  "fallbackSystems = [''Customer Portal'', ''Notifications'', ''Data Pipeline'', ''Search'', ''Billing'']"

text \<open>
  \<^verbatim>\<open>incidents.flatMap((i) => i.affected_systems || []).filter(Boolean)\<close>: the systems of
  all the incidents, in the order of the list, without the empty names.
\<close>

definition commonSystems :: "jobj list \<Rightarrow> string list" where
  "commonSystems incidents = filter (\<lambda>s. s \<noteq> []) (concat (map incident_systems incidents))"

text \<open>\<^verbatim>\<open>commonSystems[0] || fallbackSystems[0]\<close>\<close>

definition extra_system :: "jobj list \<Rightarrow> string" where
  "extra_system incidents =
     (case commonSystems incidents of [] \<Rightarrow> hd fallbackSystems | s # _ \<Rightarrow> s)"

text \<open>The data of the \<open>i\<close>-th alert of the loop, and of the alert added after the loop.\<close>

definition sample_alert :: "int \<Rightarrow> nat \<Rightarrow> jobj" where
  "sample_alert now i =
     spread (spread [] (sample ! i))
       [(''contributing_factors'', JArr
           [JStr ''Recent incident patterns'', JStr ''Traffic variability'', JStr ''Resource pressure'']),
        (''preventative_actions'', JArr
           [JStr ''Validate dashboards'', JStr ''Review recent changes'', JStr ''Prepare rollback'']),
        (''status'', JStr ''active''),
        (''created_date'', JStr (toISOString (now - int i * 60 * 60 * 1000))),
        (''updated_date'', JStr (toISOString (now - int i * 60 * 60 * 1000)))]"

definition extra_alert :: "int \<Rightarrow> string \<Rightarrow> jobj" where
  "extra_alert now sys =
     [(''severity'', JStr ''high''),
      (''likelihood'', JNum (fl (6 / 10))),
      (''predicted_timeframe'', JStr ''within 3-5 days''),
      (''predicted_issue'', JStr (''Elevated risk detected: '' @ sys)),
      (''description'', JStr
         ''Recurring signals suggest elevated risk; monitor closely and validate mitigations.''),
      (''affected_systems'', JArr [JStr sys]),
      (''confidence_score'', JNum (fl (6 / 10))),
      (''contributing_factors'', JArr [JStr ''Recurring alerts'', JStr ''Recent change activity'']),
      (''preventative_actions'', JArr
         [JStr ''Increase monitoring'', JStr ''Validate thresholds'', JStr ''Plan rollback'']),
      (''status'', JStr ''active''),
      (''created_date'', JStr (toISOString (now - 5 * 60 * 60 * 1000))),
      (''updated_date'', JStr (toISOString (now - 5 * 60 * 60 * 1000)))]"

text \<open>The loop \<^verbatim>\<open>for (let i = 0; i < sample.length; i++) created.push(await db.create(...))\<close>.\<close>

fun create_each :: "string \<Rightarrow> jobj list \<Rightarrow> world \<Rightarrow> jobj list \<times> world" where
  "create_each table [] w = ([], w)"
| "create_each table (d # ds) w =
     (let (r, w1) = db_create table d w;
          (rs, w2) = create_each table ds w1
      in (r # rs, w2))"

definition generatePredictions :: "world \<Rightarrow> (error + jv) \<times> world" where
  "generatePredictions w =
     (let (incidents, w1) = db_list ''Incident'' (Some ''-created_date'') (Some 50) w;
          (now, w2) = newDate w1;
          (created, w3) = create_each ''PredictiveAlert''
                            (map (sample_alert now) [0 ..< length sample]) w2;
          (extra, w4) = db_create ''PredictiveAlert'' (extra_alert now (extra_system incidents)) w3
      in (Inr (response [(''created'', JArr (map JObj (created @ [extra])))]), w4))"

subsection \<open>automateIncidentResponse\<close>

definition automateIncidentResponse :: "jobj \<Rightarrow> world \<Rightarrow> (error + jv) \<times> world" where
  "automateIncidentResponse payload w =
     (let (found, w1) = find_incident payload w
      in case found of
           None \<Rightarrow> (Inr ok_false, w1)
         | Some incident \<Rightarrow>
             (let analysis = analysis_of incident;
                  automation = buildAutomationForIncident incident (JObj analysis);
                  (existing, w2) = db_filter ''IncidentAutomation''
                      [(''incident_id'', obj_get payload ''incident_id'')] None None w1;
                  (saved, w3) =
                     (case existing of
                        e # _ \<Rightarrow> db_update ''IncidentAutomation'' (obj_get e ''id'')
                                   (spread [] automation) w2
                      | [] \<Rightarrow>
                          (let (r, w') = db_create ''IncidentAutomation''
                                 (spread [(''incident_id'', obj_get payload ''incident_id'')] automation) w2
                           in (Inr r, w')))
              in case saved of
                   Inl err \<Rightarrow> (Inl err, w3)
                 | Inr rec \<Rightarrow>
                     (let (logged, w4) = db_create ''AuditLog''
                            [(''incident_id'', obj_get payload ''incident_id''),
                             (''action_type'', JStr ''automation_generated''),
                             (''actor'', JStr ''SYSTEM''),
                             (''details'', JObj
                                [(''assigned_team'', obj_get rec ''assigned_team''),
                                 (''confidence'', obj_get rec ''automation_confidence'')])] w3
                      in (Inr (response [(''automation'', JObj rec)]), w4))))"

subsection \<open>generatePostIncidentReview\<close>

text \<open>\<^verbatim>\<open>incident.ai_analysis?.summary || buildAnalysisFromIncident(incident).summary\<close>\<close>

definition review_summary :: "jobj \<Rightarrow> jv" where
  "review_summary incident =
     (case (case obj_field incident ''ai_analysis'' of
              Some a \<Rightarrow> str_field a ''summary'' | None \<Rightarrow> None) of
        Some s \<Rightarrow> if s = [] then obj_get (buildAnalysisFromIncident incident) ''summary'' else JStr s
      | None \<Rightarrow> obj_get (buildAnalysisFromIncident incident) ''summary'')"

definition build_review :: "jobj \<Rightarrow> jobj \<Rightarrow> jobj list \<Rightarrow> jobj list \<Rightarrow> jobj" where
  "build_review payload incident logs decisions =
     [(''incident_id'', obj_get payload ''incident_id''),
      (''executive_summary'', review_summary incident),
      (''customer_impact'', JStr
         (if strict_eq (obj_get incident ''severity'') (JStr ''critical'') then ''High''
          else if strict_eq (obj_get incident ''severity'') (JStr ''high'') then ''Moderate''
          else ''Low'')),
      (''timeline'', JArr (map (\<lambda>l. JObj
         [(''at'', obj_get l ''created_date''), (''action'', obj_get l ''action_type''),
          (''details'', obj_get l ''details'')]) logs)),
      (''decisions'', JArr (map (\<lambda>d. JObj
         [(''action'', obj_get d ''recommendation_action''), (''decision'', obj_get d ''decision''),
          (''reason'', obj_get d ''decision_reason'')]) decisions)),
      (''what_went_well'', JArr
         [JStr ''Rapid triage and clear ownership'', JStr ''Audit trail captured key actions'']),
      (''what_went_wrong'', JArr
         [JStr ''Limited early signals / missing data'',
          JStr ''Dependency coupling increased blast radius'']),
      (''action_items'', JArr
         [JObj [(''owner'', JStr ''SRE''),
                (''item'', JStr ''Add alerting for leading indicators (latency/queue depth)''),
                (''due'', JStr ''2 weeks'')],
          JObj [(''owner'', JStr ''App Team''),
                (''item'', JStr ''Document rollback steps and add runbook''),
                (''due'', JStr ''1 week'')]])]"

definition generatePostIncidentReview :: "jobj \<Rightarrow> world \<Rightarrow> (error + jv) \<times> world" where
  "generatePostIncidentReview payload w =
     (let (found, w1) = find_incident payload w
      in case found of
           None \<Rightarrow> (Inr ok_false, w1)
         | Some incident \<Rightarrow>
             (let (logs, w2) = db_filter ''AuditLog''
                      [(''incident_id'', obj_get payload ''incident_id'')] (Some ''created_date'') None w1;
                  (decisions, w3) = db_filter ''Decision''
                      [(''incident_id'', obj_get payload ''incident_id'')] None None w2;
                  review = build_review payload incident logs decisions;
                  (existing, w4) = db_filter ''PostIncidentReview''
                      [(''incident_id'', obj_get payload ''incident_id'')] None None w3;
                  (saved, w5) =
                     (case existing of
                        e # _ \<Rightarrow> db_update ''PostIncidentReview'' (obj_get e ''id'') review w4
                      | [] \<Rightarrow>
                          (let (r, w') = db_create ''PostIncidentReview'' review w4
                           in (Inr r, w')))
              in case saved of
                   Inl err \<Rightarrow> (Inl err, w5)
                 | Inr rec \<Rightarrow>
                     (let (logged, w6) = db_create ''AuditLog''
                            [(''incident_id'', obj_get payload ''incident_id''),
                             (''action_type'', JStr ''post_incident_review_generated''),
                             (''actor'', JStr ''SYSTEM''),
                             (''details'', JObj [(''review_id'', obj_get rec ''id'')])] w5
                      in (Inr (response [(''review'', JObj rec)]), w6))))"

subsection \<open>suggestKnowledgeArticles\<close>

text \<open>
  \<^verbatim>\<open>text.split(/\W+/).filter(Boolean)\<close>: the maximal runs of letters, digits and
  underscores.
\<close>

definition is_word_char :: "char \<Rightarrow> bool" where
  "is_word_char c =
     ((CHR ''a'' \<le> c \<and> c \<le> CHR ''z'') \<or> (CHR ''A'' \<le> c \<and> c \<le> CHR ''Z'')
      \<or> (CHR ''0'' \<le> c \<and> c \<le> CHR ''9'') \<or> c = CHR ''_'')"

fun split_words :: "string \<Rightarrow> string \<Rightarrow> string list" where
  "split_words cur [] = (if cur = [] then [] else [cur])"
| "split_words cur (c # cs) =
     (if is_word_char c then split_words (cur @ [c]) cs
      else (if cur = [] then [] else [cur]) @ split_words [] cs)"

definition word_tokens :: "string \<Rightarrow> string list" where
  "word_tokens s = split_words [] s"

definition incident_text :: "jobj \<Rightarrow> string" where
  "incident_text incident =
     toLowerCase (or_str (str_field incident ''title'') [] @ '' ''
       @ or_str (str_field incident ''description'') [] @ '' ''
       @ str_join '' '' (or_list (str_list_field incident ''affected_systems'')))"

definition article_hay :: "jobj \<Rightarrow> string" where
  "article_hay a =
     toLowerCase (or_str (str_field a ''title'') [] @ '' ''
       @ or_str (str_field a ''summary'') [] @ '' ''
       @ str_join '' '' (or_list (str_list_field a ''tags'')))"

text \<open>The loop over the first 25 tokens: a token of fewer than 4 characters is skipped.\<close>

definition match_score :: "string \<Rightarrow> string \<Rightarrow> nat" where
  "match_score text hay =
     foldl (\<lambda>score token.
               if length token < 4 then score
               else if str_includes hay token then score + 1 else score)
       0 (take 25 (word_tokens text))"

definition relevance :: "jobj \<Rightarrow> jobj \<Rightarrow> rat" where
  "relevance incident a =
     clamp01 (js_div (of_nat (match_score (incident_text incident) (article_hay a))) 10)"

definition suggestion :: "jobj \<Rightarrow> jobj \<Rightarrow> jobj" where
  "suggestion incident a =
     (let r = relevance incident a
      in [(''article'', JObj a),
          (''relevance_score'', JNum r),
          (''reason'', JStr (if fl (7 / 10) < r then ''Strong tag/title overlap''
                             else if fl (4 / 10) < r then ''Partial keyword match''
                             else ''Weak match''))])"

definition relevance_score :: "jobj \<Rightarrow> rat" where
  "relevance_score s = (case obj_get s ''relevance_score'' of JNum r \<Rightarrow> r | _ \<Rightarrow> 0)"

definition suggestions :: "jobj \<Rightarrow> jobj list \<Rightarrow> jobj list" where
  "suggestions incident articles =
     take 6
       (array_sort (\<lambda>a b. let d = js_sub (relevance_score b) (relevance_score a)
                          in if d < 0 then - 1 else if 0 < d then 1 else 0)
          (filter (\<lambda>s. fl (25 / 100) \<le> relevance_score s)
             (map (suggestion incident) articles)))"

definition suggestKnowledgeArticles :: "jobj \<Rightarrow> world \<Rightarrow> (error + jv) \<times> world" where
  "suggestKnowledgeArticles payload w =
     (let (found, w1) = find_incident payload w;
          (articles, w2) = db_list ''KnowledgeBaseArticle'' (Some ''-created_date'') (Some 200) w1
      in case found of
           None \<Rightarrow> (Inr (response [(''suggestions'', JArr [])]), w2)
         | Some incident \<Rightarrow>
             (Inr (response [(''suggestions'', JArr (map JObj (suggestions incident articles)))]), w2))"

subsection \<open>generateArticleFromIncident\<close>

text \<open>
  The analysis used here may be the stored \<open>ai_analysis\<close>, which need not have the lists
  that the built one has: \<^verbatim>\<open>analysis.root_causes.map\<close> throws a TypeError when the list
  is missing, and so do a missing priority and a \<^verbatim>\<open>null\<close> element.
\<close>

definition element_obj :: "jv \<Rightarrow> jobj option" where
  "element_obj v = (case v of JObj ob \<Rightarrow> Some ob | JUndef \<Rightarrow> None | JNull \<Rightarrow> None | _ \<Rightarrow> Some [])"

definition show_int :: "int \<Rightarrow> string" where
  "show_int i = (if i < 0 then ''-'' @ show_nat (nat (- i)) else show_nat (nat i))"

definition cause_line :: "jobj \<Rightarrow> string" where
  "cause_line r =
     ''- **'' @ template_str (str_field r ''cause'') @ ''** (p=''
       @ (case num_field r ''probability'' of
            Some p \<Rightarrow> show_int (math_round (js_mul p 100))
          | None \<Rightarrow> ''NaN'')
       @ ''%)''"

definition action_line :: "jobj \<Rightarrow> string option" where
  "action_line r =
     (case str_field r ''priority'' of
        None \<Rightarrow> None
      | Some p \<Rightarrow> Some (''- **'' @ toUpperCase p @ ''**: '' @ template_str (str_field r ''action'')))"

text \<open>A list of results that all are there, or nothing.\<close>

fun all_some :: "'a option list \<Rightarrow> 'a list option" where
  "all_some [] = Some []"
| "all_some (x # xs) =
     (case x of None \<Rightarrow> None
      | Some y \<Rightarrow> (case all_some xs of None \<Rightarrow> None | Some ys \<Rightarrow> Some (y # ys)))"

definition article_content :: "jobj \<Rightarrow> string option" where
  "article_content analysis =
     (case (obj_get analysis ''root_causes'', obj_get analysis ''recommendations'') of
        (JArr causes, JArr recs) \<Rightarrow>
          (case (all_some (map element_obj causes),
                 all_some (map (\<lambda>v. case element_obj v of None \<Rightarrow> None | Some r \<Rightarrow> action_line r) recs)) of
             (Some cs, Some lines) \<Rightarrow>
               Some (''## Summary'' @ newline @ template_str (str_field analysis ''summary'')
                 @ newline @ newline @ ''## Likely root causes'' @ newline
                 @ str_join newline (map cause_line cs)
                 @ newline @ newline @ ''## Recommended actions'' @ newline
                 @ str_join newline lines
                 @ newline @ newline @ ''## Verification'' @ newline
                 @ ''- Monitor error rate and latency'' @ newline
                 @ ''- Confirm recovery in customer workflows'' @ newline)
           | _ \<Rightarrow> None)
      | _ \<Rightarrow> None)"

definition generateArticleFromIncident :: "jobj \<Rightarrow> world \<Rightarrow> (error + jv) \<times> world" where
  "generateArticleFromIncident payload w =
     (let (found, w1) = find_incident payload w
      in case found of
           None \<Rightarrow> (Inr ok_false, w1)
         | Some incident \<Rightarrow>
             (let analysis = analysis_of incident
              in case article_content analysis of
                   None \<Rightarrow> (Inl TypeError, w1)
                 | Some content \<Rightarrow>
                     (let (article, w2) = db_create ''KnowledgeBaseArticle''
                            [(''title'', JStr (''Runbook: '' @ template_str (str_field incident ''title''))),
                             (''summary'', obj_get analysis ''summary''),
                             (''content'', JStr content),
                             (''tags'', JArr (obj_get incident ''severity''
                                # map JStr (take 3 (incident_systems incident)))),
                             (''category'', JStr ''runbook''),
                             (''status'', JStr ''draft'')] w1
                      in (Inr (response [(''article'', JObj article)]), w2))))"

subsection \<open>The dispatch\<close>

definition invoke :: "string \<Rightarrow> jobj \<Rightarrow> world \<Rightarrow> (error + jv) \<times> world" where
  "invoke name payload w =
     (if name = ''generatePredictions'' then generatePredictions w
      else if name = ''automateIncidentResponse'' then automateIncidentResponse payload w
      else if name = ''generatePostIncidentReview'' then generatePostIncidentReview payload w
      else if name = ''suggestKnowledgeArticles'' then suggestKnowledgeArticles payload w
      else if name = ''generateArticleFromIncident'' then generateArticleFromIncident payload w
      else (Inl (UnknownFunction name), w))"

section \<open>Example data\<close>

text \<open>
  A store with no table yet, whose identifiers are \<open>uuid-0000\<close>, \<open>uuid-0001\<close>, \<dots> and
  whose clock advances by one millisecond at every reading, from
  2024-11-02T17:45:00.123Z.
\<close>

definition example_world :: world where
  "example_world =
     \<lparr>tables = Map.empty, uuid_src = (\<lambda>n. ''uuid-'' @ pad 4 n), uuid_n = 0,
      clock_src = (\<lambda>n. 1730569500123 + int n), clock_n = 0\<rparr>"

text \<open>Data that brings its own identifier and creation date, as the seed records do.\<close>

definition seeded_data :: jobj where
  "seeded_data =
     [(''id'', JStr ''inc_001''), (''created_date'', JStr ''2024-11-01T15:45:00.123Z''),
      (''title'', JStr ''Database Connection Pool Exhaustion - Production'')]"

definition plain_data :: jobj where
  "plain_data = [(''title'', JStr ''DB outage''), (''severity'', JStr ''critical'')]"

text \<open>The same store with a clock that stands still: every reading falls in one millisecond.\<close>

definition frozen_world :: world where
  "frozen_world = example_world\<lparr>clock_src := (\<lambda>n. 1730569500123)\<rparr>"

text \<open>Three records to create one after the other, and two records of which one has no \<open>rank\<close>.\<close>

definition first_data :: jobj where
  "first_data = [(''title'', JStr ''R1'')]"







text \<open>A clock that advances for three readings and then stays.\<close>

definition steady_world :: world where
  "steady_world = example_world\<lparr>clock_src := (\<lambda>n. 1730569500123 + int (min n 3))\<rparr>"

text \<open>A patch that sets the creation date, and data dated after the time of the call.\<close>

definition backdate_patch :: jobj where
  "backdate_patch = [(''created_date'', JStr ''1999-01-01T00:00:00.000Z'')]"

definition postdated_data :: jobj where
  "postdated_data = [(''created_date'', JStr ''2030-01-01T00:00:00.000Z'')]"

text \<open>The incident of the scenario of the analyzer, and the same incident as a stored record.\<close>

definition db_outage :: jobj where
  "db_outage =
     [(''title'', JStr ''DB outage''),
      (''description'', JStr ''Postgres connection timeouts across checkout''),
      (''severity'', JStr ''critical'')]"

definition db_outage_stored :: jobj where
  "db_outage_stored =
     [(''id'', JStr ''inc_001''), (''created_date'', JStr ''2024-11-01T15:45:00.123Z''),
      (''title'', JStr ''DB outage''),
      (''description'', JStr ''Postgres connection timeouts across checkout''),
      (''severity'', JStr ''critical''), (''status'', JStr ''new''),
      (''source'', JStr ''Datadog'')]"


text \<open>
  A store that holds one incident and the knowledge-base article of the seed data, an
  incident that has a title only, and payloads that name an incident.
\<close>

definition sso_article :: jobj where
  "sso_article =
     [(''id'', JStr ''kb_001''), (''created_date'', JStr ''2024-10-28T17:45:00.123Z''),
      (''title'', JStr ''Runbook: Troubleshoot SSO callback failures''),
      (''summary'', JStr
         ''Steps to diagnose auth callback 5xx, token validation errors, and certificate/clock skew issues.''),
      (''tags'', JArr [JStr ''auth'', JStr ''sso'', JStr ''identity'']),
      (''category'', JStr ''runbook''), (''status'', JStr ''published'')]"

definition sso_incident :: jobj where
  "sso_incident = [(''id'', JStr ''inc_sso''), (''title'', JStr ''SSO callback failure'')]"

definition seeded_world :: world where
  "seeded_world =
     example_world\<lparr>tables :=
       [''Incident'' \<mapsto> [sso_incident, db_outage_stored],
        ''KnowledgeBaseArticle'' \<mapsto> [sso_article]]\<rparr>"


definition sso_payload :: jobj where
  "sso_payload = [(''incident_id'', JStr ''inc_sso'')]"

text \<open>
  A store with three incidents: the newest names the system \<open>Search\<close>, the two older
  ones name \<open>Billing\<close>.
\<close>

definition systems_world :: world where
  "systems_world =
     example_world\<lparr>tables :=
       [''Incident'' \<mapsto>
          [[(''id'', JStr ''inc_1''), (''created_date'', JStr ''2024-11-01T10:00:00.000Z''),
            (''affected_systems'', JArr [JStr ''Billing''])],
           [(''id'', JStr ''inc_2''), (''created_date'', JStr ''2024-11-01T11:00:00.000Z''),
            (''affected_systems'', JArr [JStr ''Billing''])],
           [(''id'', JStr ''inc_3''), (''created_date'', JStr ''2024-11-01T12:00:00.000Z''),
            (''affected_systems'', JArr [JStr ''Search''])]]]\<rparr>"

text \<open>The incident with the same title and a description that shares words with the article.\<close>

definition sso_detailed :: jobj where
  "sso_detailed =
     [(''id'', JStr ''inc_sso2''), (''title'', JStr ''SSO callback failure''),
      (''description'', JStr
         ''Users cannot login; token validation errors after certificate rotation'')]"

section \<open>Objects, sorting and the store: basic facts\<close>

lemma map_of_rev_distinct: "distinct (map fst xs) \<Longrightarrow> map_of (rev xs) = map_of xs"
proof (induction xs)
  case Nil
  then show ?case by simp
next
  case (Cons p xs)
  obtain k v where p: "p = (k, v)" by (cases p)
  from Cons.prems p have nk: "map_of xs k = None" and d: "distinct (map fst xs)"
    by (auto simp: map_of_eq_None_iff)
  have "map_of (rev (p # xs)) = map_of [(k, v)] ++ map_of xs"
    using Cons.IH d by (simp add: p)
  also have "\<dots> = map_of (p # xs)"
    using nk by (auto simp: p map_add_def split: option.splits)
  finally show ?case .
qed

lemma distinct_spread: "distinct (map fst b) \<Longrightarrow> distinct (map fst (spread b e))"
  unfolding spread_def
  by (induction e arbitrary: b) (auto simp: distinct_update)

lemma map_of_spread: "map_of (spread b e) = map_of b ++ map_of (rev e)"
  unfolding spread_def
proof (induction e arbitrary: b)
  case Nil
  then show ?case by simp
next
  case (Cons p e)
  obtain k v where p: "p = (k, v)" by (cases p)
  show ?case
    by (rule ext) (simp add: Cons.IH p update_conv' map_add_def split: option.splits)
qed

lemma obj_keys_map_of: "k \<in> obj_keys e \<longleftrightarrow> map_of (rev e) k \<noteq> None"
  by (simp add: obj_keys_def map_of_eq_None_iff)

lemma obj_get_distinct: "distinct (map fst b) \<Longrightarrow> obj_get b k = (case map_of b k of None \<Rightarrow> JUndef | Some v \<Rightarrow> v)"
  by (simp add: obj_get_def map_of_rev_distinct)

lemma obj_get_spread:
  "distinct (map fst b) \<Longrightarrow>
   obj_get (spread b e) k = (if k \<in> obj_keys e then obj_get e k else obj_get b k)"
  by (simp add: obj_get_distinct distinct_spread map_of_spread obj_keys_map_of)
     (auto simp: obj_get_def map_add_def split: option.splits)

lemma obj_get_update:
  "distinct (map fst b) \<Longrightarrow>
   obj_get (AList.update k v b) k' = (if k' = k then v else obj_get b k')"
  by (simp add: obj_get_distinct distinct_update update_conv')

lemma obj_get_Nil: "obj_get [] k = JUndef"
  by (simp add: obj_get_def)

lemma mset_sort_insert: "mset (sort_insert cmp x ys) = add_mset x (mset ys)"
  by (induction ys) auto

lemma mset_sort_foldl:
  "mset (foldl (\<lambda>acc x. sort_insert cmp x acc) acc xs) = mset acc + mset xs"
  by (induction xs arbitrary: acc) (auto simp: mset_sort_insert)

lemma mset_array_sort: "mset (array_sort cmp xs) = mset xs"
  by (simp add: array_sort_def mset_sort_foldl)

lemma set_array_sort: "set (array_sort cmp xs) = set xs"
  by (metis mset_array_sort set_mset_mset)

lemma length_array_sort: "length (array_sort cmp xs) = length xs"
  by (metis mset_array_sort size_mset)

lemma mset_sortByField: "mset (sortByField xs srt) = mset xs"
  by (simp add: sortByField_def Let_def mset_array_sort)

lemma set_sortByField: "set (sortByField xs srt) = set xs"
  by (metis mset_sortByField set_mset_mset)

lemma length_sortByField: "length (sortByField xs srt) = length xs"
  by (metis mset_sortByField size_mset)

lemma fst_ensureTable: "fst (ensureTable T w) = rows w T"
  by (simp add: ensureTable_def rows_def split: option.splits)

lemma rows_ensureTable: "rows (snd (ensureTable T w)) T' = rows w T'"
  by (simp add: ensureTable_def rows_def split: option.splits)

lemma fst_db_list:
  "fst (db_list T srt limit w) =
     take (case limit of None \<Rightarrow> 100 | Some n \<Rightarrow> n)
       (sortByField (rows w T) (case srt of None \<Rightarrow> ''-created_date'' | Some s \<Rightarrow> s))"
  by (simp add: db_list_def ensureTable_def rows_def split: option.splits)

lemma fst_db_filter:
  "fst (db_filter T whr srt limit w) =
     take (case limit of None \<Rightarrow> 1000 | Some n \<Rightarrow> n)
       (sortByField (filter (\<lambda>r. matchesWhere r whr) (rows w T))
          (case srt of None \<Rightarrow> ''-created_date'' | Some s \<Rightarrow> s))"
  by (simp add: db_filter_def ensureTable_def rows_def split: option.splits)

lemma db_create_eq:
  "db_create T data w =
     (let rec = spread [(''id'', JStr (uuid_src w (uuid_n w))),
                        (''created_date'', JStr (toISOString (clock_src w (clock_n w)))),
                        (''updated_date'', JStr (toISOString (clock_src w (Suc (clock_n w)))))] data
      in (rec, w\<lparr>tables := (tables w)(T \<mapsto> rows w T @ [rec]),
                 uuid_n := Suc (uuid_n w), clock_n := Suc (Suc (clock_n w))\<rparr>))"
  by (simp add: db_create_def ensureTable_def rows_def uuid_def nowIso_def newDate_def Let_def
      split: option.splits)

lemma example_world_sel:
  "tables example_world = Map.empty" "uuid_n example_world = 0" "clock_n example_world = 0"
  "uuid_src example_world n = ''uuid-'' @ pad 4 n"
  "clock_src example_world n = 1730569500123 + int n"
  by (simp_all add: example_world_def)

lemma t1: "toISOString 1730569500123 = ''2024-11-02T17:45:00.123Z''" by code_simp
lemma t2: "toISOString 1730569500124 = ''2024-11-02T17:45:00.124Z''" by code_simp
lemma u0: "pad 4 0 = ''0000''" by code_simp

lemma findIndex_None: "findIndex P xs = None \<longleftrightarrow> (\<forall>x \<in> set xs. \<not> P x)"
  by (induction xs) auto

lemma findIndex_Some:
  "findIndex P xs = Some i \<Longrightarrow> i < length xs \<and> P (xs ! i) \<and> (\<forall>j < i. \<not> P (xs ! j))"
proof (induction xs arbitrary: i)
  case Nil
  then show ?case by simp
next
  case (Cons x xs)
  show ?case
  proof (cases "P x")
    case True
    with Cons.prems show ?thesis by simp
  next
    case False
    with Cons.prems obtain i' where i': "findIndex P xs = Some i'" "i = Suc i'"
      by auto
    from Cons.IH [OF i'(1)] False show ?thesis
      by (auto simp: i'(2) less_Suc_eq_0_disj)
  qed
qed

lemma db_update_eq:
  "db_update T ident patch w =
     (case findIndex (\<lambda>r. strict_eq (obj_get r ''id'') ident) (rows w T) of
        None \<Rightarrow> (Inl (NotFound T ident), snd (ensureTable T w))
      | Some idx \<Rightarrow>
          (let rec = AList.update ''updated_date'' (JStr (toISOString (clock_src w (clock_n w))))
                       (spread (spread [] (rows w T ! idx)) patch)
           in (Inr rec, w\<lparr>tables := (tables w)(T \<mapsto> (rows w T)[idx := rec]),
                           clock_n := Suc (clock_n w)\<rparr>)))"
  by (simp add: db_update_def ensureTable_def rows_def nowIso_def newDate_def Let_def
      split: option.splits)

lemma obj_get_merge:
  "obj_get (AList.update ''updated_date'' v (spread (spread [] old) patch)) k =
     (if k = ''updated_date'' then v
      else if k \<in> obj_keys patch then obj_get patch k
      else obj_get old k)"
proof -
  have d0: "distinct (map fst (spread [] old))"
    by (rule distinct_spread) simp
  have d1: "distinct (map fst (spread (spread [] old) patch))"
    by (rule distinct_spread) (rule d0)
  have old: "obj_get (spread [] old) k = obj_get old k"
    by (simp add: obj_get_spread obj_get_Nil)
       (simp add: obj_get_def obj_keys_map_of)
  show ?thesis
    by (simp add: obj_get_update [OF d1] obj_get_spread [OF d0] old)
qed

lemma t3: "toISOString 1730569500125 = ''2024-11-02T17:45:00.125Z''" by code_simp

lemma created_plain:
  "db_create ''Incident'' plain_data example_world =
     ([(''id'', JStr ''uuid-0000''), (''created_date'', JStr ''2024-11-02T17:45:00.123Z''),
       (''updated_date'', JStr ''2024-11-02T17:45:00.124Z''),
       (''title'', JStr ''DB outage''), (''severity'', JStr ''critical'')],
      example_world\<lparr>tables := [''Incident'' \<mapsto>
         [[(''id'', JStr ''uuid-0000''), (''created_date'', JStr ''2024-11-02T17:45:00.123Z''),
           (''updated_date'', JStr ''2024-11-02T17:45:00.124Z''),
           (''title'', JStr ''DB outage''), (''severity'', JStr ''critical'')]]],
        uuid_n := 1, clock_n := 2\<rparr>)"
  by (simp add: db_create_eq Let_def plain_data_def spread_def example_world_sel t1 t2 u0 rows_def)

lemma frozen_world_sel:
  "tables frozen_world = Map.empty" "uuid_n frozen_world = 0" "clock_n frozen_world = 0"
  "uuid_src frozen_world n = ''uuid-'' @ pad 4 n"
  "clock_src frozen_world n = 1730569500123"
  by (simp_all add: frozen_world_def example_world_def)

lemma created_frozen:
  "db_create ''Incident'' plain_data frozen_world =
     ([(''id'', JStr ''uuid-0000''), (''created_date'', JStr ''2024-11-02T17:45:00.123Z''),
       (''updated_date'', JStr ''2024-11-02T17:45:00.123Z''),
       (''title'', JStr ''DB outage''), (''severity'', JStr ''critical'')],
      frozen_world\<lparr>tables := [''Incident'' \<mapsto>
         [[(''id'', JStr ''uuid-0000''), (''created_date'', JStr ''2024-11-02T17:45:00.123Z''),
           (''updated_date'', JStr ''2024-11-02T17:45:00.123Z''),
           (''title'', JStr ''DB outage''), (''severity'', JStr ''critical'')]]],
        uuid_n := 1, clock_n := 2\<rparr>)"
  by (simp add: db_create_eq Let_def plain_data_def spread_def frozen_world_sel t1 u0 rows_def)

section \<open>Facts about the sort\<close>















lemma t_more:
  "toISOString 1730569500126 = ''2024-11-02T17:45:00.126Z''"
  "toISOString 1730569500127 = ''2024-11-02T17:45:00.127Z''"
  "toISOString 1730569500128 = ''2024-11-02T17:45:00.128Z''"
  by code_simp+

lemma u_more: "pad 4 (Suc 0) = ''0001''" "pad 4 (Suc (Suc 0)) = ''0002''"
  by code_simp+





section \<open>Facts about sequences of operations and the dates\<close>

lemma db_remove_eq:
  "snd (db_remove T ident w) =
     (case findIndex (\<lambda>r. strict_eq (obj_get r ''id'') ident) (rows w T) of
        None \<Rightarrow> snd (ensureTable T w)
      | Some idx \<Rightarrow> w\<lparr>tables := (tables w)(T \<mapsto> take idx (rows w T) @ drop (Suc idx) (rows w T))\<rparr>)"
  by (simp add: db_remove_def ensureTable_def rows_def split: option.splits)

lemma ensureTable_sel:
  "clock_src (snd (ensureTable T w)) = clock_src w" "clock_n (snd (ensureTable T w)) = clock_n w"
  "uuid_src (snd (ensureTable T w)) = uuid_src w" "uuid_n (snd (ensureTable T w)) = uuid_n w"
  by (simp_all add: ensureTable_def split: option.splits)

lemma apply_op_clock_src: "clock_src (apply_op op w) = clock_src w"
  by (cases op)
     (simp_all add: db_create_eq db_update_eq db_remove_eq Let_def ensureTable_sel split: option.splits)

lemma apply_op_steady: "clock_steady (apply_op op w) = clock_steady w"
  by (simp add: clock_steady_def apply_op_clock_src)

lemma rows_upd: "rows (w\<lparr>tables := (tables w)(T \<mapsto> t)\<rparr>) T' = (if T' = T then t else rows w T')"
  by (simp add: rows_def)

lemma rows_apply_create:
  "rows (apply_op (Create T data) w) T' = rows w T' @ (if T' = T then [fst (db_create T data w)] else [])"
  by (simp add: db_create_eq Let_def rows_def)

lemma rows_apply_update:
  "rows (apply_op (Update T ident patch) w) T' =
     (case findIndex (\<lambda>r. strict_eq (obj_get r ''id'') ident) (rows w T) of
        Some idx \<Rightarrow> if T' = T then (rows w T)[idx := AList.update ''updated_date''
                         (JStr (toISOString (clock_src w (clock_n w))))
                         (spread (spread [] (rows w T ! idx)) patch)]
                    else rows w T'
      | None \<Rightarrow> rows w T')"
  by (simp add: db_update_eq Let_def rows_def rows_ensureTable [unfolded rows_def] split: option.splits)

lemma rows_apply_remove:
  "rows (apply_op (Remove T ident) w) T' =
     (case findIndex (\<lambda>r. strict_eq (obj_get r ''id'') ident) (rows w T) of
        Some idx \<Rightarrow> if T' = T then take idx (rows w T) @ drop (Suc idx) (rows w T) else rows w T'
      | None \<Rightarrow> rows w T')"
  by (simp add: db_remove_eq rows_def rows_ensureTable [unfolded rows_def] split: option.splits)

lemma clock_n_apply:
  "clock_n (apply_op (Create T data) w) = Suc (Suc (clock_n w))"
  "clock_n (apply_op (Update T ident patch) w) =
     (case findIndex (\<lambda>r. strict_eq (obj_get r ''id'') ident) (rows w T) of
        Some idx \<Rightarrow> Suc (clock_n w) | None \<Rightarrow> clock_n w)"
  "clock_n (apply_op (Remove T ident) w) = clock_n w"
  by (simp_all add: db_create_eq db_update_eq db_remove_eq Let_def ensureTable_sel split: option.splits)

lemma obj_get_created:
  "obj_get (fst (db_create T data w)) k =
     (if k \<in> obj_keys data then obj_get data k
      else if k = ''id'' then JStr (uuid_src w (uuid_n w))
      else if k = ''created_date'' then JStr (toISOString (clock_src w (clock_n w)))
      else if k = ''updated_date'' then JStr (toISOString (clock_src w (Suc (clock_n w))))
      else JUndef)"
  by (simp add: db_create_eq Let_def obj_get_spread) (simp add: obj_get_def)

lemma step_create:
  assumes steady: "clock_steady w" and ord: "dates_ordered w" and na: "not_ahead w"
    and sd: "store_dated (Create T data)"
  shows "dates_ordered (apply_op (Create T data) w) \<and> not_ahead (apply_op (Create T data) w)"
proof -
  let ?w' = "apply_op (Create T data) w"
  let ?rec = "fst (db_create T data w)"
  let ?c = "toISOString (clock_src w (clock_n w))"
  let ?u = "toISOString (clock_src w (Suc (clock_n w)))"
  from sd have cd: "obj_get ?rec ''created_date'' = JStr ?c"
    and ud: "obj_get ?rec ''updated_date'' = JStr ?u"
    by (simp_all add: obj_get_created)
  have cu: "?c \<le> ?u"
    using steady by (simp add: clock_steady_def)
  have mem: "r \<in> set (rows w T') \<or> r = ?rec" if "r \<in> set (rows ?w' T')" for r T'
    using that by (auto simp: rows_apply_create simp del: apply_op.simps split: if_splits)
  have "dates_ordered ?w'"
    unfolding dates_ordered_def
  proof (intro allI ballI)
    fix T' r assume "r \<in> set (rows ?w' T')"
    from mem [OF this] show "\<exists>c u. obj_get r ''created_date'' = JStr c
        \<and> obj_get r ''updated_date'' = JStr u \<and> c \<le> u"
      using ord cd ud cu unfolding dates_ordered_def by blast
  qed
  moreover have "not_ahead ?w'"
    unfolding not_ahead_def
  proof (intro allI ballI impI)
    fix T' r u k
    assume r: "r \<in> set (rows ?w' T')"
      and a: "obj_get r ''updated_date'' = JStr u \<and> clock_n ?w' \<le> k"
    then have k: "Suc (Suc (clock_n w)) \<le> k"
      by (simp add: clock_n_apply del: apply_op.simps)
    from mem [OF r] show "u \<le> toISOString (clock_src ?w' k)"
    proof
      assume "r \<in> set (rows w T')"
      with na a k show ?thesis
        unfolding not_ahead_def apply_op_clock_src by (metis Suc_leD)
    next
      assume "r = ?rec"
      with a ud have "u = ?u" by simp
      moreover have "?u \<le> toISOString (clock_src w k)"
        using steady k unfolding clock_steady_def by (metis Suc_leD)
      ultimately show ?thesis
        by (simp only: apply_op_clock_src)
    qed
  qed
  ultimately show ?thesis ..
qed

lemma step_remove:
  assumes ord: "dates_ordered w" and na: "not_ahead w"
  shows "dates_ordered (apply_op (Remove T ident) w) \<and> not_ahead (apply_op (Remove T ident) w)"
proof -
  let ?w' = "apply_op (Remove T ident) w"
  have mem: "r \<in> set (rows w T')" if "r \<in> set (rows ?w' T')" for r T'
    using that
    by (auto simp: rows_apply_remove simp del: apply_op.simps split: option.splits if_splits
        dest: in_set_takeD in_set_dropD)
  have "dates_ordered ?w'"
    using ord mem unfolding dates_ordered_def by blast
  moreover have "not_ahead ?w'"
    using na mem unfolding not_ahead_def apply_op_clock_src clock_n_apply by blast
  ultimately show ?thesis ..
qed

lemma step_update:
  assumes steady: "clock_steady w" and ord: "dates_ordered w" and na: "not_ahead w"
    and sd: "store_dated (Update T ident patch)"
  shows "dates_ordered (apply_op (Update T ident patch) w)
       \<and> not_ahead (apply_op (Update T ident patch) w)"
proof (cases "findIndex (\<lambda>r. strict_eq (obj_get r ''id'') ident) (rows w T)")
  case None
  then have same: "rows (apply_op (Update T ident patch) w) T' = rows w T'" for T'
    by (simp add: rows_apply_update del: apply_op.simps)
  from None have n: "clock_n (apply_op (Update T ident patch) w) = clock_n w"
    by (simp add: clock_n_apply del: apply_op.simps)
  show ?thesis
    using ord na unfolding dates_ordered_def not_ahead_def same n apply_op_clock_src by simp
next
  case (Some idx)
  let ?w' = "apply_op (Update T ident patch) w"
  let ?old = "rows w T ! idx"
  let ?now = "toISOString (clock_src w (clock_n w))"
  let ?rec = "AList.update ''updated_date'' (JStr ?now) (spread (spread [] ?old) patch)"
  from findIndex_Some [OF Some] have idx: "idx < length (rows w T)" by simp
  then have old: "?old \<in> set (rows w T)" by simp
  from ord old obtain c u where c: "obj_get ?old ''created_date'' = JStr c"
    and u: "obj_get ?old ''updated_date'' = JStr u" and cu: "c \<le> u"
    unfolding dates_ordered_def by blast
  from na old u have "u \<le> ?now"
    unfolding not_ahead_def by blast
  with cu have cnow: "c \<le> ?now" by simp
  from sd have cd: "obj_get ?rec ''created_date'' = JStr c"
    by (simp add: obj_get_merge c)
  have ud: "obj_get ?rec ''updated_date'' = JStr ?now"
    by (simp add: obj_get_merge)
  have n: "clock_n ?w' = Suc (clock_n w)"
    using Some by (simp add: clock_n_apply del: apply_op.simps)
  have mem: "r \<in> set (rows w T') \<or> r = ?rec" if "r \<in> set (rows ?w' T')" for r T'
  proof (cases "T' = T")
    case True
    with that Some have "r \<in> set ((rows w T)[idx := ?rec])"
      by (simp add: rows_apply_update del: apply_op.simps)
    then have "r \<in> insert ?rec (set (rows w T))"
      using set_update_subset_insert by fastforce
    with True show ?thesis by auto
  next
    case False
    with that Some show ?thesis
      by (simp add: rows_apply_update del: apply_op.simps)
  qed
  have "dates_ordered ?w'"
    unfolding dates_ordered_def
  proof (intro allI ballI)
    fix T' r assume "r \<in> set (rows ?w' T')"
    from mem [OF this] show "\<exists>c u. obj_get r ''created_date'' = JStr c
        \<and> obj_get r ''updated_date'' = JStr u \<and> c \<le> u"
      using ord cd ud cnow unfolding dates_ordered_def by blast
  qed
  moreover have "not_ahead ?w'"
    unfolding not_ahead_def
  proof (intro allI ballI impI)
    fix T' r u' k
    assume r: "r \<in> set (rows ?w' T')"
      and a: "obj_get r ''updated_date'' = JStr u' \<and> clock_n ?w' \<le> k"
    then have k: "Suc (clock_n w) \<le> k"
      by (simp only: n)
    from mem [OF r] show "u' \<le> toISOString (clock_src ?w' k)"
    proof
      assume "r \<in> set (rows w T')"
      with na a k show ?thesis
        unfolding not_ahead_def apply_op_clock_src by (metis Suc_leD)
    next
      assume "r = ?rec"
      with a ud have "u' = ?now" by simp
      moreover have "?now \<le> toISOString (clock_src w k)"
        using steady k unfolding clock_steady_def by (metis Suc_leD)
      ultimately show ?thesis
        by (simp only: apply_op_clock_src)
    qed
  qed
  ultimately show ?thesis ..
qed

lemma step_dates:
  "clock_steady w \<Longrightarrow> dates_ordered w \<Longrightarrow> not_ahead w \<Longrightarrow> store_dated op \<Longrightarrow>
   dates_ordered (apply_op op w) \<and> not_ahead (apply_op op w)"
  by (cases op) (simp_all only: step_create step_update step_remove)

lemma run_dates:
  "clock_steady w \<Longrightarrow> dates_ordered w \<Longrightarrow> not_ahead w \<Longrightarrow> list_all store_dated ops \<Longrightarrow>
   dates_ordered (run ops w) \<and> not_ahead (run ops w)"
  unfolding run_def
proof (induction ops arbitrary: w)
  case Nil
  then show ?case by simp
next
  case (Cons op ops)
  from Cons.prems have sd: "store_dated op" and rest: "list_all store_dated ops"
    by simp_all
  from step_dates [OF Cons.prems(1-3) sd]
  have "dates_ordered (apply_op op w)" "not_ahead (apply_op op w)"
    by simp_all
  moreover have "clock_steady (apply_op op w)"
    using Cons.prems(1) by (simp only: apply_op_steady)
  ultimately show ?case
    using Cons.IH rest by simp
qed

lemma steady_world_sel:
  "tables steady_world = Map.empty" "uuid_n steady_world = 0" "clock_n steady_world = 0"
  "uuid_src steady_world n = ''uuid-'' @ pad 4 n"
  "clock_src steady_world n = 1730569500123 + int (min n 3)"
  by (simp_all add: steady_world_def example_world_def)

lemma steady_world_steady: "clock_steady steady_world"
  unfolding clock_steady_def
proof (intro allI impI)
  fix m n :: nat
  assume "m \<le> n"
  then have le: "min m 3 \<le> min n 3" by simp
  have m: "min m 3 = 0 \<or> min m 3 = 1 \<or> min m 3 = 2 \<or> min m 3 = 3" by arith
  have n: "min n 3 = 0 \<or> min n 3 = 1 \<or> min n 3 = 2 \<or> min n 3 = 3" by arith
  from m n le show "toISOString (clock_src steady_world m) \<le> toISOString (clock_src steady_world n)"
    unfolding steady_world_sel
    by (elim disjE) (simp_all add: t1 t2 t3 t_more)
qed

section \<open>Facts about strings, the analyzer and the team assignment\<close>






lemma db_outage_confidence:
  "obj_get (buildAnalysisFromIncident db_outage) ''confidence_score'' = JNum (fl (78 / 100))"
  by code_simp





section \<open>Facts about the dispatch and the prediction generator\<close>


lemma snd_db_list: "snd (db_list T srt limit w) = snd (ensureTable T w)"
  by (simp add: db_list_def split_def Let_def)

lemma sortByField_Nil: "sortByField [] srt = []"
  by (simp add: sortByField_def array_sort_def)

lemma sortByField_eq_Nil: "sortByField xs srt = [] \<longleftrightarrow> xs = []"
  using length_sortByField [of xs srt] by (metis length_0_conv)




lemma seeded_world_sel:
  "tables seeded_world = [''Incident'' \<mapsto> [sso_incident, db_outage_stored],
        ''KnowledgeBaseArticle'' \<mapsto> [sso_article]]"
  "uuid_n seeded_world = 0" "clock_n seeded_world = 0"
  "uuid_src seeded_world n = ''uuid-'' @ pad 4 n"
  "clock_src seeded_world n = 1730569500123 + int n"
  by (simp_all add: seeded_world_def example_world_def)

lemma seeded_rows:
  "rows seeded_world ''Incident'' = [sso_incident, db_outage_stored]"
  "rows seeded_world ''KnowledgeBaseArticle'' = [sso_article]"
  "rows seeded_world ''PredictiveAlert'' = []"
  by (simp_all add: rows_def seeded_world_sel)

lemma rows_snd_db_create:
  "rows (snd (db_create T data w)) T' = rows w T' @ (if T' = T then [fst (db_create T data w)] else [])"
  by (simp add: db_create_eq Let_def rows_def)

lemma create_each_rows:
  "rows (snd (create_each T ds w)) T' = rows w T' @ (if T' = T then fst (create_each T ds w) else [])"
proof (induction ds arbitrary: w)
  case Nil
  then show ?case by simp
next
  case (Cons d ds)
  show ?case
    by (simp add: split_def Let_def Cons.IH rows_snd_db_create)
qed

lemma create_each_three:
  "fst (create_each T [d0, d1, d2] w) =
     [fst (db_create T d0 w),
      fst (db_create T d1 (snd (db_create T d0 w))),
      fst (db_create T d2 (snd (db_create T d1 (snd (db_create T d0 w)))))]"
  by (simp add: split_def Let_def)

lemma created_keeps:
  "k \<in> obj_keys data \<Longrightarrow> obj_get (fst (db_create T data w)) k = obj_get data k"
  by (simp add: obj_get_created)

lemma sample_indices: "[0 ..< length sample] = [0, 1, 2]"
  by (simp add: sample_def upt_rec)

lemma sample_nth:
  "sample ! 0 = hd sample" "sample ! 1 = hd (tl sample)" "sample ! 2 = hd (tl (tl sample))"
  by (simp_all add: sample_def)

lemma obj_keys_spread: "obj_keys (spread b e) = obj_keys b \<union> obj_keys e"
  unfolding spread_def obj_keys_def
  by (induction e arbitrary: b) (auto simp: dom_update [unfolded dom_def] image_iff split: prod.splits)

lemma sample_alert_fields:
  "obj_get (sample_alert now i) ''status'' = JStr ''active''"
  "obj_get (sample_alert now i) ''created_date'' = JStr (toISOString (now - int i * 60 * 60 * 1000))"
  "obj_get (sample_alert now i) ''updated_date'' = JStr (toISOString (now - int i * 60 * 60 * 1000))"
  "obj_get (sample_alert now i) ''severity'' = obj_get (sample ! i) ''severity''"
  "obj_get (sample_alert now i) ''predicted_issue'' = obj_get (sample ! i) ''predicted_issue''"
proof -
  have d: "distinct (map fst (spread [] (sample ! i)))"
    by (rule distinct_spread) simp
  have base: "obj_get (spread [] (sample ! i)) k = obj_get (sample ! i) k" for k
    by (simp add: obj_get_spread obj_get_Nil) (simp add: obj_get_def obj_keys_map_of)
  show "obj_get (sample_alert now i) ''status'' = JStr ''active''"
    "obj_get (sample_alert now i) ''created_date'' = JStr (toISOString (now - int i * 60 * 60 * 1000))"
    "obj_get (sample_alert now i) ''updated_date'' = JStr (toISOString (now - int i * 60 * 60 * 1000))"
    "obj_get (sample_alert now i) ''severity'' = obj_get (sample ! i) ''severity''"
    "obj_get (sample_alert now i) ''predicted_issue'' = obj_get (sample ! i) ''predicted_issue''"
    unfolding sample_alert_def
    by (simp_all add: obj_get_spread [OF d] base obj_keys_def) (simp_all add: obj_get_def)
qed

lemma sample_alert_keys:
  "''status'' \<in> obj_keys (sample_alert now i)" "''created_date'' \<in> obj_keys (sample_alert now i)"
  "''updated_date'' \<in> obj_keys (sample_alert now i)"
  "i < 3 \<Longrightarrow> ''severity'' \<in> obj_keys (sample_alert now i)"
  "i < 3 \<Longrightarrow> ''predicted_issue'' \<in> obj_keys (sample_alert now i)"
proof -
  show "''status'' \<in> obj_keys (sample_alert now i)" "''created_date'' \<in> obj_keys (sample_alert now i)"
    "''updated_date'' \<in> obj_keys (sample_alert now i)"
    by (simp_all add: sample_alert_def obj_keys_spread) (simp_all add: obj_keys_def)
  assume "i < 3"
  then have "i = 0 \<or> i = 1 \<or> i = 2" by arith
  then have "''severity'' \<in> obj_keys (sample ! i) \<and> ''predicted_issue'' \<in> obj_keys (sample ! i)"
    by (auto simp: sample_def obj_keys_def)
  then show "''severity'' \<in> obj_keys (sample_alert now i)"
    "''predicted_issue'' \<in> obj_keys (sample_alert now i)"
    by (simp_all add: sample_alert_def obj_keys_spread)
qed

lemma sample_values:
  "map (\<lambda>i. obj_get (sample ! i) ''severity'') [0, 1, 2] = [JStr ''critical'', JStr ''high'', JStr ''high'']"
  "map (\<lambda>i. obj_get (sample ! i) ''predicted_issue'') [0, 1, 2] =
     [JStr ''PostgreSQL Connection Pool Exhaustion During Peak Hours'',
      JStr ''API Gateway Latency Regression'',
      JStr ''Authentication Service Memory Leak Continuation'']"
  by (simp_all add: sample_def obj_get_def)

lemma extra_alert_fields:
  "obj_get (extra_alert now sys) ''status'' = JStr ''active''"
  "obj_get (extra_alert now sys) ''created_date'' = JStr (toISOString (now - 5 * 60 * 60 * 1000))"
  "obj_get (extra_alert now sys) ''updated_date'' = JStr (toISOString (now - 5 * 60 * 60 * 1000))"
  "obj_get (extra_alert now sys) ''affected_systems'' = JArr [JStr sys]"
  "obj_get (extra_alert now sys) ''predicted_issue'' = JStr (''Elevated risk detected: '' @ sys)"
  "{''status'', ''created_date'', ''updated_date'', ''affected_systems'', ''predicted_issue''}
     \<subseteq> obj_keys (extra_alert now sys)"
  by (simp_all add: extra_alert_def obj_get_def obj_keys_def)

lemma extra_system_fallback:
  assumes "\<forall>i \<in> set incidents. \<forall>s \<in> set (incident_systems i). s = []"
  shows "extra_system incidents = ''Customer Portal''"
proof -
  from assms have "commonSystems incidents = []"
    by (auto simp: commonSystems_def filter_empty_conv)
  then show ?thesis
    by (simp add: extra_system_def fallbackSystems_def)
qed

lemma generatePredictions_eq:
  "generatePredictions w =
     (let incidents = fst (db_list ''Incident'' (Some ''-created_date'') (Some 50) w);
          w1 = snd (ensureTable ''Incident'' w);
          now = clock_src w (clock_n w);
          w2 = w1\<lparr>clock_n := Suc (clock_n w)\<rparr>;
          ds = [sample_alert now 0, sample_alert now 1, sample_alert now 2];
          w3 = snd (create_each ''PredictiveAlert'' ds w2);
          created = fst (create_each ''PredictiveAlert'' ds w2);
          extra = db_create ''PredictiveAlert'' (extra_alert now (extra_system incidents)) w3
      in (Inr (response [(''created'', JArr (map JObj (created @ [fst extra])))]), snd extra))"
  unfolding generatePredictions_def
  by (simp add: split_def Let_def newDate_def snd_db_list ensureTable_sel sample_indices
      del: create_each.simps)

lemma generatePredictions_result:
  "\<exists>a0 a1 a2 a3 sys.
      fst (generatePredictions w)
        = Inr (response [(''created'', JArr [JObj a0, JObj a1, JObj a2, JObj a3])])
    \<and> rows (snd (generatePredictions w)) ''PredictiveAlert''
        = rows w ''PredictiveAlert'' @ [a0, a1, a2, a3]
    \<and> (\<forall>T. T \<noteq> ''PredictiveAlert'' \<longrightarrow> rows (snd (generatePredictions w)) T = rows w T)
    \<and> map (\<lambda>a. obj_get a ''status'') [a0, a1, a2, a3]
        = [JStr ''active'', JStr ''active'', JStr ''active'', JStr ''active'']
    \<and> map (\<lambda>a. obj_get a ''created_date'') [a0, a1, a2, a3]
        = map (\<lambda>h. JStr (toISOString (clock_src w (clock_n w) - h * 60 * 60 * 1000))) [0, 1, 2, 5]
    \<and> map (\<lambda>a. obj_get a ''updated_date'') [a0, a1, a2, a3]
        = map (\<lambda>h. JStr (toISOString (clock_src w (clock_n w) - h * 60 * 60 * 1000))) [0, 1, 2, 5]
    \<and> map (\<lambda>a. obj_get a ''severity'') [a0, a1, a2]
        = [JStr ''critical'', JStr ''high'', JStr ''high'']
    \<and> map (\<lambda>a. obj_get a ''predicted_issue'') [a0, a1, a2]
        = [JStr ''PostgreSQL Connection Pool Exhaustion During Peak Hours'',
           JStr ''API Gateway Latency Regression'',
           JStr ''Authentication Service Memory Leak Continuation'']
    \<and> obj_get a3 ''affected_systems'' = JArr [JStr sys]
    \<and> obj_get a3 ''predicted_issue'' = JStr (''Elevated risk detected: '' @ sys)
    \<and> ((\<forall>i \<in> set (fst (db_list ''Incident'' (Some ''-created_date'') (Some 50) w)).
           \<forall>s \<in> set (incident_systems i). s = [])
         \<longrightarrow> sys = ''Customer Portal'')"
proof -
  define incidents where "incidents = fst (db_list ''Incident'' (Some ''-created_date'') (Some 50) w)"
  define now where "now = clock_src w (clock_n w)"
  define w2 where "w2 = (snd (ensureTable ''Incident'' w))\<lparr>clock_n := Suc (clock_n w)\<rparr>"
  define sys where "sys = extra_system incidents"
  let ?PA = "''PredictiveAlert''"
  let ?ds = "[sample_alert now 0, sample_alert now 1, sample_alert now 2]"
  define w3 where "w3 = snd (create_each ?PA ?ds w2)"
  define a0 where "a0 = fst (db_create ?PA (sample_alert now 0) w2)"
  define a1 where "a1 = fst (db_create ?PA (sample_alert now 1) (snd (db_create ?PA (sample_alert now 0) w2)))"
  define a2 where "a2 = fst (db_create ?PA (sample_alert now 2)
      (snd (db_create ?PA (sample_alert now 1) (snd (db_create ?PA (sample_alert now 0) w2)))))"
  define a3 where "a3 = fst (db_create ?PA (extra_alert now sys) w3)"
  have created: "fst (create_each ?PA ?ds w2) = [a0, a1, a2]"
    by (simp only: create_each_three a0_def a1_def a2_def)
  have "generatePredictions w =
      (Inr (response [(''created'', JArr (map JObj ([a0, a1, a2] @ [a3])))]),
       snd (db_create ?PA (extra_alert now sys) w3))"
    unfolding generatePredictions_eq Let_def created [symmetric] a3_def w3_def w2_def now_def
      sys_def incidents_def ..
  then have gp: "generatePredictions w =
      (Inr (response [(''created'', JArr [JObj a0, JObj a1, JObj a2, JObj a3])]),
       snd (db_create ?PA (extra_alert now sys) w3))"
    by simp
  have rows_w2: "rows w2 T = rows w T" for T
    by (simp add: w2_def rows_def [of "_\<lparr>clock_n := _\<rparr>"] rows_ensureTable [unfolded rows_def])
       (simp add: rows_def)
  have rows_w3: "rows w3 T = rows w T @ (if T = ?PA then [a0, a1, a2] else [])" for T
    unfolding w3_def by (simp only: create_each_rows created rows_w2)
  have rows_end: "rows (snd (generatePredictions w)) T
      = rows w T @ (if T = ?PA then [a0, a1, a2, a3] else [])" for T
    by (simp add: gp rows_snd_db_create rows_w3 a3_def)
  have f0: "obj_get a0 k = obj_get (sample_alert now 0) k" if "k \<in> obj_keys (sample_alert now 0)" for k
    unfolding a0_def using that by (rule created_keeps)
  have f1: "obj_get a1 k = obj_get (sample_alert now 1) k" if "k \<in> obj_keys (sample_alert now 1)" for k
    unfolding a1_def using that by (rule created_keeps)
  have f2: "obj_get a2 k = obj_get (sample_alert now 2) k" if "k \<in> obj_keys (sample_alert now 2)" for k
    unfolding a2_def using that by (rule created_keeps)
  have f3: "obj_get a3 k = obj_get (extra_alert now sys) k" if "k \<in> obj_keys (extra_alert now sys)" for k
    unfolding a3_def using that by (rule created_keeps)
  have k3: "''status'' \<in> obj_keys (extra_alert now sys)" "''created_date'' \<in> obj_keys (extra_alert now sys)"
    "''updated_date'' \<in> obj_keys (extra_alert now sys)" "''affected_systems'' \<in> obj_keys (extra_alert now sys)"
    "''predicted_issue'' \<in> obj_keys (extra_alert now sys)"
    using extra_alert_fields(6) [of now sys] by simp_all
  have status: "map (\<lambda>a. obj_get a ''status'') [a0, a1, a2, a3]
        = [JStr ''active'', JStr ''active'', JStr ''active'', JStr ''active'']"
    by (simp add: f0 f1 f2 f3 sample_alert_keys k3 sample_alert_fields extra_alert_fields)
  have cdate: "map (\<lambda>a. obj_get a ''created_date'') [a0, a1, a2, a3]
        = map (\<lambda>h. JStr (toISOString (now - h * 60 * 60 * 1000))) [0, 1, 2, 5]"
    by (simp add: f0 f1 f2 f3 sample_alert_keys k3 sample_alert_fields extra_alert_fields)
  have udate: "map (\<lambda>a. obj_get a ''updated_date'') [a0, a1, a2, a3]
        = map (\<lambda>h. JStr (toISOString (now - h * 60 * 60 * 1000))) [0, 1, 2, 5]"
    by (simp add: f0 f1 f2 f3 sample_alert_keys k3 sample_alert_fields extra_alert_fields)
  have sev: "map (\<lambda>a. obj_get a ''severity'') [a0, a1, a2]
        = [JStr ''critical'', JStr ''high'', JStr ''high'']"
    using sample_values(1) by (simp add: f0 f1 f2 sample_alert_keys sample_alert_fields)
  have issue: "map (\<lambda>a. obj_get a ''predicted_issue'') [a0, a1, a2]
        = [JStr ''PostgreSQL Connection Pool Exhaustion During Peak Hours'',
           JStr ''API Gateway Latency Regression'',
           JStr ''Authentication Service Memory Leak Continuation'']"
    using sample_values(2) by (simp add: f0 f1 f2 sample_alert_keys sample_alert_fields)
  have extra: "obj_get a3 ''affected_systems'' = JArr [JStr sys]"
    "obj_get a3 ''predicted_issue'' = JStr (''Elevated risk detected: '' @ sys)"
    by (simp_all add: f3 k3 extra_alert_fields)
  have fallback: "(\<forall>i \<in> set (fst (db_list ''Incident'' (Some ''-created_date'') (Some 50) w)).
           \<forall>s \<in> set (incident_systems i). s = [])
         \<longrightarrow> sys = ''Customer Portal''"
    unfolding sys_def incidents_def by (simp add: extra_system_fallback)
  have p1: "fst (generatePredictions w)
        = Inr (response [(''created'', JArr [JObj a0, JObj a1, JObj a2, JObj a3])])"
    by (simp add: gp)
  have p2: "rows (snd (generatePredictions w)) ''PredictiveAlert''
        = rows w ''PredictiveAlert'' @ [a0, a1, a2, a3]"
    by (simp add: rows_end)
  have p3: "\<forall>T. T \<noteq> ''PredictiveAlert'' \<longrightarrow> rows (snd (generatePredictions w)) T = rows w T"
    by (simp add: rows_end)
  note p = p1 p2 p3 status cdate [unfolded now_def] udate [unfolded now_def] sev issue extra fallback
  show ?thesis
    apply (rule exI [of _ a0])
    apply (rule exI [of _ a1])
    apply (rule exI [of _ a2])
    apply (rule exI [of _ a3])
    apply (rule exI [of _ sys])
    apply (intro conjI)
    apply (rule p)+
    done
qed

lemma t_hours:
  "toISOString 1730565900123 = ''2024-11-02T16:45:00.123Z''"
  "toISOString 1730562300123 = ''2024-11-02T15:45:00.123Z''"
  "toISOString 1730551500123 = ''2024-11-02T12:45:00.123Z''"
  by code_simp+

lemma no_incidents: "fst (db_list ''Incident'' (Some ''-created_date'') (Some 50) example_world) = []"
  by (simp add: fst_db_list rows_def example_world_sel sortByField_Nil)

lemma systems_listed:
  "extra_system (fst (db_list ''Incident'' (Some ''-created_date'') (Some 50) systems_world)) = ''Search''"
  by code_simp

lemma systems_counts:
  "count_list (concat (map incident_systems (rows systems_world ''Incident''))) ''Billing'' = 2"
  "count_list (concat (map incident_systems (rows systems_world ''Incident''))) ''Search'' = 1"
  by code_simp+

lemma systems_world_sel:
  "uuid_n systems_world = 0" "clock_n systems_world = 0"
  "uuid_src systems_world n = ''uuid-'' @ pad 4 n"
  "clock_src systems_world n = 1730569500123 + int n"
  "rows systems_world ''PredictiveAlert'' = []"
  by (simp_all add: systems_world_def example_world_def rows_def)

section \<open>Facts about the article suggestions\<close>

lemma count_foldl:
  "foldl (\<lambda>score token. if length token < 4 then score
                          else if P token then score + 1 else score) n xs
     = n + length (filter (\<lambda>t. 4 \<le> length t \<and> P t) xs)"
  by (induction xs arbitrary: n) auto

lemma match_score_count:
  "match_score text hay =
     length (filter (\<lambda>t. 4 \<le> length t \<and> str_includes hay t) (take 25 (word_tokens text)))"
  by (simp add: match_score_def count_foldl)

lemma tenths:
  "clamp01 (js_div 0 10) = 0" "clamp01 (js_div 1 10) = fl (1 / 10)"
  "clamp01 (js_div 2 10) = fl (2 / 10)" "clamp01 (js_div 3 10) = fl (3 / 10)"
  "clamp01 (js_div 4 10) = fl (4 / 10)"
  by code_simp+

lemma tenths_order:
  "(0::rat) < fl (1 / 10)" "fl (1 / 10) < fl (2 / 10)" "fl (2 / 10) < fl (25 / 100)"
  "fl (25 / 100) < fl (3 / 10)" "fl (3 / 10) < fl (4 / 10)" "fl (4 / 10) < fl (7 / 10)"
  by code_simp+

lemma low_score_relevance:
  assumes "n \<le> 2"
  shows "clamp01 (js_div (of_nat n) 10) \<le> fl (2 / 10)"
proof -
  from assms have "n = 0 \<or> n = 1 \<or> n = 2" by arith
  then show ?thesis
    using tenths_order by (auto simp: tenths)
qed

lemma mid_score_relevance:
  assumes "n \<le> 4"
  shows "clamp01 (js_div (of_nat n) 10) \<le> fl (4 / 10)"
proof -
  from assms have "n = 0 \<or> n = 1 \<or> n = 2 \<or> n = 3 \<or> n = 4" by arith
  then show ?thesis
    using tenths_order by (auto simp: tenths)
qed

lemma relevance_score_suggestion: "relevance_score (suggestion incident a) = relevance incident a"
  by (simp add: relevance_score_def suggestion_def Let_def obj_get_def)

lemma suggestions_subset:
  "set (suggestions incident articles)
     \<subseteq> {suggestion incident a | a. a \<in> set articles \<and> fl (25 / 100) \<le> relevance incident a}"
proof -
  let ?kept = "filter (\<lambda>s. fl (25 / 100) \<le> relevance_score s) (map (suggestion incident) articles)"
  let ?cmp = "\<lambda>a b. let d = js_sub (relevance_score b) (relevance_score a)
                    in if d < 0 then - 1 else if 0 < d then 1 else (0::int)"
  have "set (take 6 (array_sort ?cmp ?kept)) \<subseteq> set (array_sort ?cmp ?kept)"
    by (rule set_take_subset)
  also have "\<dots> = set ?kept"
    by (rule set_array_sort)
  also have "\<dots> \<subseteq> {suggestion incident a | a. a \<in> set articles \<and> fl (25 / 100) \<le> relevance incident a}"
    by (auto simp: relevance_score_suggestion)
  finally show ?thesis
    by (simp only: suggestions_def)
qed

lemma title_only_tokens:
  "word_tokens (toLowerCase (''SSO callback failure'' @ '' '' @ [] @ '' '' @ str_join '' '' []))
     = [''sso'', ''callback'', ''failure'']"
  by code_simp

lemma title_only_score:
  assumes "str_field incident ''title'' = Some ''SSO callback failure''"
    and "or_str (str_field incident ''description'') [] = []"
    and "or_list (str_list_field incident ''affected_systems'') = []"
  shows "match_score (incident_text incident) hay \<le> 2"
proof -
  from assms have "incident_text incident
      = toLowerCase (''SSO callback failure'' @ '' '' @ [] @ '' '' @ str_join '' '' [])"
    by (simp add: incident_text_def or_str_def)
  then have "take 25 (word_tokens (incident_text incident)) = [''sso'', ''callback'', ''failure'']"
    by (simp only: title_only_tokens) simp
  then show ?thesis
    by (simp add: match_score_count)
qed

lemma detailed_suggestion:
  "suggestions sso_detailed [sso_article] = [suggestion sso_detailed sso_article]"
  "relevance sso_detailed sso_article = fl (6 / 10)"
  "match_score (incident_text sso_detailed) (article_hay sso_article) = 6"
  "obj_get (suggestion sso_detailed sso_article) ''reason'' = JStr ''Partial keyword match''"
  by code_simp+

lemma title_only_suggestion:
  "relevance sso_incident sso_article = fl (2 / 10)"
  "match_score (incident_text sso_incident) (article_hay sso_article) = 2"
  "obj_get (suggestion sso_incident sso_article) ''reason'' = JStr ''Weak match''"
  "fst (invoke ''suggestKnowledgeArticles'' sso_payload seeded_world)
     = Inr (response [(''suggestions'', JArr [])])"
  by code_simp+

section \<open>Claims about the record store\<close>

text \<open>
  C1 (amended). \<^verbatim>\<open>create(T, data)\<close> returns the object
  \<^verbatim>\<open>{ id, created_date, updated_date, ...data }\<close>: every field of \<open>data\<close> is in the record
  with the value \<open>data\<close> gives it, also when the field is \<open>id\<close>, \<open>created_date\<close> or
  \<open>updated_date\<close>; each of these three that \<open>data\<close> does not define is the identifier
  returned by \<^verbatim>\<open>uuid()\<close>, respectively the two readings of the clock made by the call. The
  record is appended to \<open>T\<close> and no other table changes. When \<open>data\<close> has no \<open>id\<close> and the
  fresh identifier is not yet in \<open>T\<close>, no earlier record of \<open>T\<close> has the record's id. A
  following \<open>list\<close> on \<open>T\<close> whose limit covers the table returns the record, and so does a
  \<open>filter\<close> whose condition the record meets.
\<close>

theorem db_create_record:
  assumes "db_create T data w = (rec, w')"
  shows "(\<forall>k. obj_get rec k =
            (if k \<in> obj_keys data then obj_get data k
             else if k = ''id'' then JStr (uuid_src w (uuid_n w))
             else if k = ''created_date'' then JStr (toISOString (clock_src w (clock_n w)))
             else if k = ''updated_date'' then JStr (toISOString (clock_src w (Suc (clock_n w))))
             else JUndef))
       \<and> rows w' T = rows w T @ [rec]
       \<and> (\<forall>T'. T' \<noteq> T \<longrightarrow> rows w' T' = rows w T')
       \<and> (''id'' \<notin> obj_keys data \<and> (\<forall>r \<in> set (rows w T). obj_get r ''id'' \<noteq> JStr (uuid_src w (uuid_n w)))
            \<longrightarrow> (\<forall>r \<in> set (rows w T). obj_get r ''id'' \<noteq> obj_get rec ''id''))
       \<and> (\<forall>srt limit. length (rows w' T) \<le> limit \<longrightarrow> rec \<in> set (fst (db_list T srt (Some limit) w')))
       \<and> (\<forall>whr srt limit. matchesWhere rec whr \<and> length (rows w' T) \<le> limit
            \<longrightarrow> rec \<in> set (fst (db_filter T whr srt (Some limit) w')))"
proof -
  let ?base = "[(''id'', JStr (uuid_src w (uuid_n w))),
                (''created_date'', JStr (toISOString (clock_src w (clock_n w)))),
                (''updated_date'', JStr (toISOString (clock_src w (Suc (clock_n w)))))]"
  from assms have rec: "rec = spread ?base data"
    and w': "w' = w\<lparr>tables := (tables w)(T \<mapsto> rows w T @ [rec]),
                   uuid_n := Suc (uuid_n w), clock_n := Suc (Suc (clock_n w))\<rparr>"
    by (auto simp: db_create_eq Let_def)
  have fields: "obj_get rec k =
            (if k \<in> obj_keys data then obj_get data k
             else if k = ''id'' then JStr (uuid_src w (uuid_n w))
             else if k = ''created_date'' then JStr (toISOString (clock_src w (clock_n w)))
             else if k = ''updated_date'' then JStr (toISOString (clock_src w (Suc (clock_n w))))
             else JUndef)" for k
    unfolding rec by (subst obj_get_spread) (simp_all add: obj_get_def)
  have rows_T: "rows w' T = rows w T @ [rec]"
    by (simp add: w' rows_def)
  have rows_other: "rows w' T' = rows w T'" if "T' \<noteq> T" for T'
    using that by (simp add: w' rows_def)
  have uniq: "\<forall>r \<in> set (rows w T). obj_get r ''id'' \<noteq> obj_get rec ''id''"
    if "''id'' \<notin> obj_keys data" "\<forall>r \<in> set (rows w T). obj_get r ''id'' \<noteq> JStr (uuid_src w (uuid_n w))"
    using that by (simp add: fields)
  have in_list: "rec \<in> set (fst (db_list T srt (Some limit) w'))"
    if "length (rows w' T) \<le> limit" for srt limit
    using that by (simp add: fst_db_list length_sortByField set_sortByField rows_T)
  have in_filter: "rec \<in> set (fst (db_filter T whr srt (Some limit) w'))"
    if "matchesWhere rec whr" "length (rows w' T) \<le> limit" for whr srt limit
  proof -
    have "length (filter (\<lambda>r. matchesWhere r whr) (rows w' T)) \<le> limit"
      using that(2) by (meson le_trans length_filter_le)
    then show ?thesis
      using that(1) by (simp add: fst_db_filter length_sortByField set_sortByField rows_T)
  qed
  show ?thesis
    using fields rows_T rows_other uniq in_list in_filter by blast
qed

theorem db_create_record_witness:
  "obj_get (fst (db_create ''Incident'' plain_data example_world)) ''title'' = JStr ''DB outage''
   \<and> obj_get (fst (db_create ''Incident'' plain_data example_world)) ''id'' = JStr ''uuid-0000''
   \<and> obj_get (fst (db_create ''Incident'' plain_data example_world)) ''created_date''
        = JStr ''2024-11-02T17:45:00.123Z''
   \<and> obj_get (fst (db_create ''Incident'' plain_data example_world)) ''updated_date''
        = JStr ''2024-11-02T17:45:00.124Z''
   \<and> fst (db_create ''Incident'' plain_data example_world)
        \<in> set (fst (db_list ''Incident'' None (Some 100)
                     (snd (db_create ''Incident'' plain_data example_world))))"
proof -
  let ?r = "fst (db_create ''Incident'' plain_data example_world)"
  let ?w = "snd (db_create ''Incident'' plain_data example_world)"
  have run: "db_create ''Incident'' plain_data example_world = (?r, ?w)"
    by simp
  note t = db_create_record [OF run]
  have empty: "rows example_world ''Incident'' = []"
    by (simp add: rows_def example_world_sel)
  have keys: "obj_keys plain_data = {''title'', ''severity''}"
    by (auto simp: obj_keys_def plain_data_def)
  have "?r \<in> set (fst (db_list ''Incident'' None (Some 100) ?w))"
    using t empty by simp
  moreover have "obj_get ?r ''title'' = JStr ''DB outage''"
    using t keys by (simp add: obj_get_def plain_data_def)
  moreover have "obj_get ?r ''id'' = JStr ''uuid-0000''"
    using t keys by (simp add: example_world_sel u0)
  moreover have "obj_get ?r ''created_date'' = JStr ''2024-11-02T17:45:00.123Z''"
    using t keys t1 by (simp add: example_world_sel)
  moreover have "obj_get ?r ''updated_date'' = JStr ''2024-11-02T17:45:00.124Z''"
    using t keys t2 by (simp add: example_world_sel)
  ultimately show ?thesis by simp
qed

text \<open>
  C1 as stated fails for data that carries its own \<open>id\<close> and \<open>created_date\<close>: creating
  twice from \<open>seeded_data\<close> gives two records of the same table with the same id, the id
  is not the one \<^verbatim>\<open>uuid()\<close> returned, and \<open>created_date\<close> is not the time of the call.
\<close>

theorem db_create_counterexample:
  "obj_get (fst (db_create ''Incident'' seeded_data
              (snd (db_create ''Incident'' seeded_data example_world)))) ''id''
     = obj_get (fst (db_create ''Incident'' seeded_data example_world)) ''id''
   \<and> fst (db_create ''Incident'' seeded_data example_world)
        \<in> set (rows (snd (db_create ''Incident'' seeded_data example_world)) ''Incident'')
   \<and> obj_get (fst (db_create ''Incident'' seeded_data example_world)) ''id''
        \<noteq> JStr (uuid_src example_world (uuid_n example_world))
   \<and> obj_get (fst (db_create ''Incident'' seeded_data example_world)) ''created_date''
        \<noteq> JStr (toISOString (clock_src example_world (clock_n example_world)))"
  by (simp add: db_create_eq Let_def seeded_data_def spread_def example_world_sel t1 t2 u0
      obj_get_def rows_def)

text \<open>
  C2 (amended). \<^verbatim>\<open>update(T, id, patch)\<close> fails with NotFound exactly when no record of
  \<open>T\<close> has that id, and then no table changes. Otherwise it returns the first record
  with that id, with the fields of \<open>patch\<close> laid over it and \<open>updated_date\<close> set to the
  clock reading of the call, and puts it in the place of the old record. The new
  \<open>updated_date\<close> is greater than the old one when the clock reading is later than the
  old value; nothing makes it so otherwise.
\<close>

theorem db_update_result:
  assumes "db_update T ident patch w = (res, w')"
  shows "((\<exists>e. res = Inl e) \<longleftrightarrow> (\<forall>r \<in> set (rows w T). \<not> strict_eq (obj_get r ''id'') ident))
       \<and> (\<forall>e. res = Inl e \<longrightarrow> e = NotFound T ident \<and> (\<forall>T'. rows w' T' = rows w T'))
       \<and> (\<forall>rec. res = Inr rec \<longrightarrow>
            (\<exists>idx < length (rows w T).
                strict_eq (obj_get (rows w T ! idx) ''id'') ident
              \<and> (\<forall>j < idx. \<not> strict_eq (obj_get (rows w T ! j) ''id'') ident)
              \<and> (\<forall>k. obj_get rec k =
                    (if k = ''updated_date'' then JStr (toISOString (clock_src w (clock_n w)))
                     else if k \<in> obj_keys patch then obj_get patch k
                     else obj_get (rows w T ! idx) k))
              \<and> rows w' T = (rows w T)[idx := rec]
              \<and> (\<forall>T'. T' \<noteq> T \<longrightarrow> rows w' T' = rows w T')
              \<and> (\<forall>u. obj_get (rows w T ! idx) ''updated_date'' = JStr u
                       \<and> u < toISOString (clock_src w (clock_n w))
                    \<longrightarrow> js_gt (obj_get rec ''updated_date'')
                          (obj_get (rows w T ! idx) ''updated_date''))))"
proof (cases "findIndex (\<lambda>r. strict_eq (obj_get r ''id'') ident) (rows w T)")
  case None
  with assms have res: "res = Inl (NotFound T ident)" and w': "w' = snd (ensureTable T w)"
    by (auto simp: db_update_eq)
  from None have none: "\<forall>r \<in> set (rows w T). \<not> strict_eq (obj_get r ''id'') ident"
    by (simp add: findIndex_None)
  show ?thesis
    using none by (simp add: res w' rows_ensureTable)
next
  case (Some idx)
  let ?now = "JStr (toISOString (clock_src w (clock_n w)))"
  let ?rec = "AList.update ''updated_date'' ?now (spread (spread [] (rows w T ! idx)) patch)"
  from Some assms have res: "res = Inr ?rec"
    and w': "w' = w\<lparr>tables := (tables w)(T \<mapsto> (rows w T)[idx := ?rec]),
                    clock_n := Suc (clock_n w)\<rparr>"
    by (auto simp: db_update_eq Let_def)
  from findIndex_Some [OF Some] have idx: "idx < length (rows w T)"
    and hit: "strict_eq (obj_get (rows w T ! idx) ''id'') ident"
    and first: "\<forall>j < idx. \<not> strict_eq (obj_get (rows w T ! j) ''id'') ident"
    by auto
  have some: "\<not> (\<forall>r \<in> set (rows w T). \<not> strict_eq (obj_get r ''id'') ident)"
    using idx hit nth_mem by blast
  have rows_T: "rows w' T = (rows w T)[idx := ?rec]"
    by (simp add: w' rows_def)
  have rows_other: "\<forall>T'. T' \<noteq> T \<longrightarrow> rows w' T' = rows w T'"
    by (simp add: w' rows_def)
  have later: "\<forall>u. obj_get (rows w T ! idx) ''updated_date'' = JStr u
                 \<and> u < toISOString (clock_src w (clock_n w))
               \<longrightarrow> js_gt (obj_get ?rec ''updated_date'') (obj_get (rows w T ! idx) ''updated_date'')"
    by (simp add: obj_get_merge js_gt_def)
  have fields: "\<forall>k. obj_get ?rec k =
                    (if k = ''updated_date'' then ?now
                     else if k \<in> obj_keys patch then obj_get patch k
                     else obj_get (rows w T ! idx) k)"
    by (simp add: obj_get_merge)
  have "\<exists>idx < length (rows w T).
                strict_eq (obj_get (rows w T ! idx) ''id'') ident
              \<and> (\<forall>j < idx. \<not> strict_eq (obj_get (rows w T ! j) ''id'') ident)
              \<and> (\<forall>k. obj_get ?rec k =
                    (if k = ''updated_date'' then ?now
                     else if k \<in> obj_keys patch then obj_get patch k
                     else obj_get (rows w T ! idx) k))
              \<and> rows w' T = (rows w T)[idx := ?rec]
              \<and> (\<forall>T'. T' \<noteq> T \<longrightarrow> rows w' T' = rows w T')
              \<and> (\<forall>u. obj_get (rows w T ! idx) ''updated_date'' = JStr u
                       \<and> u < toISOString (clock_src w (clock_n w))
                    \<longrightarrow> js_gt (obj_get ?rec ''updated_date'')
                          (obj_get (rows w T ! idx) ''updated_date''))"
    using idx hit first fields rows_T rows_other later by blast
  then show ?thesis
    using some by (simp add: res)
qed

theorem db_update_result_witness:
  "(\<exists>rec. fst (db_update ''Incident'' (JStr ''uuid-0000'') [(''status'', JStr ''analyzing'')]
               (snd (db_create ''Incident'' plain_data example_world))) = Inr rec
        \<and> obj_get rec ''status'' = JStr ''analyzing''
        \<and> obj_get rec ''title'' = JStr ''DB outage''
        \<and> obj_get rec ''updated_date'' = JStr ''2024-11-02T17:45:00.125Z''
        \<and> js_gt (obj_get rec ''updated_date'') (JStr ''2024-11-02T17:45:00.124Z''))
   \<and> fst (db_update ''Incident'' (JStr ''inc_404'') [(''status'', JStr ''analyzing'')]
               (snd (db_create ''Incident'' plain_data example_world)))
        = Inl (NotFound ''Incident'' (JStr ''inc_404''))"
proof -
  let ?w = "snd (db_create ''Incident'' plain_data example_world)"
  let ?p = "[(''status'', JStr ''analyzing'')]"
  have rows: "rows ?w ''Incident'' =
         [[(''id'', JStr ''uuid-0000''), (''created_date'', JStr ''2024-11-02T17:45:00.123Z''),
           (''updated_date'', JStr ''2024-11-02T17:45:00.124Z''),
           (''title'', JStr ''DB outage''), (''severity'', JStr ''critical'')]]"
    by (simp add: created_plain rows_def)
  have clock: "toISOString (clock_src ?w (clock_n ?w)) = ''2024-11-02T17:45:00.125Z''"
    by (simp add: created_plain example_world_sel t3)
  have keys: "obj_keys ?p = {''status''}"
    by (simp add: obj_keys_def)
  let ?hit = "db_update ''Incident'' (JStr ''uuid-0000'') ?p ?w"
  let ?miss = "db_update ''Incident'' (JStr ''inc_404'') ?p ?w"
  have hit: "?hit = (fst ?hit, snd ?hit)" and miss: "?miss = (fst ?miss, snd ?miss)"
    by simp_all
  note h = db_update_result [OF hit]
  note m = db_update_result [OF miss]
  from m have "\<exists>e. fst ?miss = Inl e"
    by (simp add: rows obj_get_def)
  with m have missed: "fst ?miss = Inl (NotFound ''Incident'' (JStr ''inc_404''))"
    by blast
  from h have "\<not> (\<exists>e. fst ?hit = Inl e)"
    by (simp add: rows obj_get_def)
  then obtain rec where rec: "fst ?hit = Inr rec"
    by (cases "fst ?hit") auto
  with h have fields: "\<forall>k. obj_get rec k =
       (if k = ''updated_date'' then JStr ''2024-11-02T17:45:00.125Z''
        else if k = ''status'' then JStr ''analyzing''
        else obj_get (rows ?w ''Incident'' ! 0) k)"
    by (simp add: rows clock keys obj_get_def)
  have "obj_get rec ''status'' = JStr ''analyzing''"
       "obj_get rec ''title'' = JStr ''DB outage''"
       "obj_get rec ''updated_date'' = JStr ''2024-11-02T17:45:00.125Z''"
    using fields by (simp_all add: rows obj_get_def)
  moreover have "js_gt (JStr ''2024-11-02T17:45:00.125Z'') (JStr ''2024-11-02T17:45:00.124Z'')"
    by (simp add: js_gt_def)
  ultimately show ?thesis
    using rec missed by simp
qed

text \<open>
  C2 as stated asks for an \<open>updated_date\<close> strictly greater than before. A record
  created and updated within one millisecond keeps the same \<open>updated_date\<close>.
\<close>

theorem db_update_counterexample:
  "fst (db_update ''Incident'' (JStr ''uuid-0000'') [(''status'', JStr ''analyzing'')]
         (snd (db_create ''Incident'' plain_data frozen_world)))
     = Inr [(''id'', JStr ''uuid-0000''), (''created_date'', JStr ''2024-11-02T17:45:00.123Z''),
            (''updated_date'', JStr ''2024-11-02T17:45:00.123Z''),
            (''title'', JStr ''DB outage''), (''severity'', JStr ''critical''),
            (''status'', JStr ''analyzing'')]
   \<and> obj_get (fst (db_create ''Incident'' plain_data frozen_world)) ''updated_date''
        = JStr ''2024-11-02T17:45:00.123Z''
   \<and> \<not> js_gt (JStr ''2024-11-02T17:45:00.123Z'') (JStr ''2024-11-02T17:45:00.123Z'')"
  by (simp add: created_frozen db_update_eq rows_def Let_def spread_def obj_get_def js_gt_def
      frozen_world_sel t1)




text \<open>
  C4 (amended). Take a store in which every record has \<open>updated_date\<close> not before
  \<open>created_date\<close> and no \<open>updated_date\<close> later than the readings of the clock still to
  come (the empty store is one), a clock that never goes back, and any sequence of
  create, update and delete operations whose data and patches do not set
  \<open>created_date\<close>, nor \<open>updated_date\<close> on create. Then in the store reached every record
  has \<open>updated_date\<close> not before \<open>created_date\<close>. An update whose patch has no
  \<open>created_date\<close> leaves the \<open>created_date\<close> of every record as it was; a create only
  appends a record and a delete only takes one record out. Every update that succeeds
  sets \<open>updated_date\<close> to the clock reading of the call.
\<close>

theorem dates_invariants:
  "(clock_steady w \<and> dates_ordered w \<and> not_ahead w \<and> list_all store_dated ops
      \<longrightarrow> dates_ordered (run ops w))
   \<and> (''created_date'' \<notin> obj_keys patch \<longrightarrow>
        map (\<lambda>r. obj_get r ''created_date'') (rows (apply_op (Update T ident patch) w) T')
          = map (\<lambda>r. obj_get r ''created_date'') (rows w T'))
   \<and> rows (apply_op (Create T data) w) T'
        = rows w T' @ (if T' = T then [fst (db_create T data w)] else [])
   \<and> (\<exists>k. rows (apply_op (Remove T ident) w) T' = take k (rows w T') @ drop (Suc k) (rows w T'))
   \<and> (\<forall>rec. fst (db_update T ident patch w) = Inr rec \<longrightarrow>
          obj_get rec ''updated_date'' = JStr (toISOString (clock_src w (clock_n w))))"
proof (intro conjI impI allI)
  assume "clock_steady w \<and> dates_ordered w \<and> not_ahead w \<and> list_all store_dated ops"
  then show "dates_ordered (run ops w)"
    using run_dates [of w ops] by simp
next
  assume nc: "''created_date'' \<notin> obj_keys patch"
  show "map (\<lambda>r. obj_get r ''created_date'') (rows (apply_op (Update T ident patch) w) T')
          = map (\<lambda>r. obj_get r ''created_date'') (rows w T')"
  proof (cases "findIndex (\<lambda>r. strict_eq (obj_get r ''id'') ident) (rows w T)")
    case None
    then show ?thesis
      by (simp add: rows_apply_update del: apply_op.simps)
  next
    case (Some idx)
    from findIndex_Some [OF Some] have idx: "idx < length (rows w T)" by simp
    show ?thesis
    proof (cases "T' = T")
      case True
      have "map (\<lambda>r. obj_get r ''created_date'') ((rows w T)[idx := AList.update ''updated_date''
                (JStr (toISOString (clock_src w (clock_n w))))
                (spread (spread [] (rows w T ! idx)) patch)])
            = (map (\<lambda>r. obj_get r ''created_date'') (rows w T))
                [idx := (map (\<lambda>r. obj_get r ''created_date'') (rows w T)) ! idx]"
        using nc idx by (simp add: map_update obj_get_merge)
      also have "\<dots> = map (\<lambda>r. obj_get r ''created_date'') (rows w T)"
        by (rule list_update_id)
      finally show ?thesis
        using Some True by (simp add: rows_apply_update del: apply_op.simps)
    next
      case False
      with Some show ?thesis
        by (simp add: rows_apply_update del: apply_op.simps)
    qed
  qed
next
  show "rows (apply_op (Create T data) w) T'
        = rows w T' @ (if T' = T then [fst (db_create T data w)] else [])"
    by (rule rows_apply_create)
next
  show "\<exists>k. rows (apply_op (Remove T ident) w) T' = take k (rows w T') @ drop (Suc k) (rows w T')"
  proof (cases "findIndex (\<lambda>r. strict_eq (obj_get r ''id'') ident) (rows w T)")
    case None
    then have "rows (apply_op (Remove T ident) w) T'
        = take (length (rows w T')) (rows w T') @ drop (Suc (length (rows w T'))) (rows w T')"
      by (simp add: rows_apply_remove del: apply_op.simps)
    then show ?thesis ..
  next
    case (Some idx)
    show ?thesis
    proof (cases "T' = T")
      case True
      with Some have "rows (apply_op (Remove T ident) w) T'
          = take idx (rows w T') @ drop (Suc idx) (rows w T')"
        by (simp add: rows_apply_remove del: apply_op.simps)
      then show ?thesis ..
    next
      case False
      with Some have "rows (apply_op (Remove T ident) w) T'
        = take (length (rows w T')) (rows w T') @ drop (Suc (length (rows w T'))) (rows w T')"
        by (simp add: rows_apply_remove del: apply_op.simps)
      then show ?thesis ..
    qed
  qed
next
  fix rec
  assume "fst (db_update T ident patch w) = Inr rec"
  then show "obj_get rec ''updated_date'' = JStr (toISOString (clock_src w (clock_n w)))"
    by (auto simp: db_update_eq Let_def obj_get_merge split: option.splits)
qed

theorem dates_invariants_witness:
  "dates_ordered
     (run [Create ''Incident'' plain_data,
           Update ''Incident'' (JStr ''uuid-0000'') [(''status'', JStr ''analyzing'')],
           Create ''Incident'' first_data,
           Remove ''Incident'' (JStr ''uuid-0001'')] steady_world)
   \<and> rows (run [Create ''Incident'' plain_data,
           Update ''Incident'' (JStr ''uuid-0000'') [(''status'', JStr ''analyzing'')],
           Create ''Incident'' first_data,
           Remove ''Incident'' (JStr ''uuid-0001'')] steady_world) ''Incident''
       = [[(''id'', JStr ''uuid-0000''), (''created_date'', JStr ''2024-11-02T17:45:00.123Z''),
           (''updated_date'', JStr ''2024-11-02T17:45:00.125Z''),
           (''title'', JStr ''DB outage''), (''severity'', JStr ''critical''),
           (''status'', JStr ''analyzing'')]]"
proof -
  let ?ops = "[Create ''Incident'' plain_data,
           Update ''Incident'' (JStr ''uuid-0000'') [(''status'', JStr ''analyzing'')],
           Create ''Incident'' first_data,
           Remove ''Incident'' (JStr ''uuid-0001'')]"
  have start: "dates_ordered steady_world" "not_ahead steady_world"
    by (simp_all add: dates_ordered_def not_ahead_def rows_def steady_world_sel)
  have ops: "list_all store_dated ?ops"
    by (simp add: obj_keys_def plain_data_def first_data_def)
  have "dates_ordered (run ?ops steady_world)"
    using dates_invariants [of steady_world ?ops] steady_world_steady start ops by blast
  moreover have "rows (run ?ops steady_world) ''Incident''
       = [[(''id'', JStr ''uuid-0000''), (''created_date'', JStr ''2024-11-02T17:45:00.123Z''),
           (''updated_date'', JStr ''2024-11-02T17:45:00.125Z''),
           (''title'', JStr ''DB outage''), (''severity'', JStr ''critical''),
           (''status'', JStr ''analyzing'')]]"
    by (simp add: run_def db_create_eq db_update_eq db_remove_eq Let_def rows_def spread_def
        plain_data_def first_data_def steady_world_sel obj_get_def t1 t2 t3 t_more u0 u_more)
  ultimately show ?thesis ..
qed

text \<open>
  C4 as stated fails for operations that set the dates themselves: an update whose
  patch carries \<open>created_date\<close> changes the creation date of the record, and a create
  whose data carries a \<open>created_date\<close> after the time of the call stores a record whose
  \<open>updated_date\<close> is before its \<open>created_date\<close>.
\<close>

theorem dates_invariants_counterexample:
  "fst (db_update ''Incident'' (JStr ''uuid-0000'') backdate_patch
         (snd (db_create ''Incident'' plain_data example_world)))
     = Inr [(''id'', JStr ''uuid-0000''), (''created_date'', JStr ''1999-01-01T00:00:00.000Z''),
            (''updated_date'', JStr ''2024-11-02T17:45:00.125Z''),
            (''title'', JStr ''DB outage''), (''severity'', JStr ''critical'')]
   \<and> obj_get (fst (db_create ''Incident'' plain_data example_world)) ''created_date''
        = JStr ''2024-11-02T17:45:00.123Z''
   \<and> obj_get (fst (db_create ''Incident'' postdated_data example_world)) ''created_date''
        = JStr ''2030-01-01T00:00:00.000Z''
   \<and> obj_get (fst (db_create ''Incident'' postdated_data example_world)) ''updated_date''
        = JStr ''2024-11-02T17:45:00.124Z''
   \<and> js_gt (JStr ''2030-01-01T00:00:00.000Z'') (JStr ''2024-11-02T17:45:00.124Z'')"
  by (simp add: created_plain db_update_eq db_create_eq rows_def Let_def spread_def obj_get_def
      js_gt_def backdate_patch_def postdated_data_def plain_data_def example_world_sel t1 t2 t3 u0)

section \<open>Claims about the analyzer and the automation generator\<close>



text \<open>
  C6. \<^verbatim>\<open>buildAnalysisFromIncident\<close> reads its argument and nothing else: no clock, no
  identifier source, no table. Its model is therefore a function of the incident
  alone, and two calls on the same payload return the same analysis. More is true:
  the analysis is determined by the five fields the function reads, so two payloads
  that agree on them have the same summary, root causes, probabilities,
  recommendations and confidence score, whatever else they hold.
\<close>

theorem analysis_deterministic:
  assumes "\<forall>k \<in> {''title'', ''description'', ''logs'', ''severity'', ''affected_systems''}.
             obj_get a k = obj_get b k"
  shows "buildAnalysisFromIncident a = buildAnalysisFromIncident b"
proof -
  from assms have t: "incident_title a = incident_title b"
    and d: "incident_desc a = incident_desc b"
    and s: "incident_sev a = incident_sev b"
    and y: "incident_systems a = incident_systems b"
    by (simp_all add: incident_title_def incident_desc_def incident_sev_def incident_systems_def
        str_field_def str_list_field_def)
  have sig: "isAuth a = isAuth b" "isDb a = isDb b" "isApi a = isApi b"
    by (simp_all add: isAuth_def isDb_def isApi_def t d)
  have "root_causes a = root_causes b"
    by (simp add: root_causes_def sig y)
  moreover have "recommendations a = recommendations b"
    by (simp add: recommendations_def s d)
  ultimately show ?thesis
    by (simp add: buildAnalysisFromIncident_def t d s)
qed

theorem analysis_deterministic_witness:
  "buildAnalysisFromIncident db_outage_stored = buildAnalysisFromIncident db_outage
   \<and> obj_get db_outage_stored ''id'' \<noteq> obj_get db_outage ''id''
   \<and> obj_get (buildAnalysisFromIncident db_outage_stored) ''confidence_score'' = JNum (fl (78 / 100))"
proof -
  have "\<forall>k \<in> {''title'', ''description'', ''logs'', ''severity'', ''affected_systems''}.
             obj_get db_outage_stored k = obj_get db_outage k"
    by (simp add: obj_get_def db_outage_def db_outage_stored_def)
  then have "buildAnalysisFromIncident db_outage_stored = buildAnalysisFromIncident db_outage"
    by (rule analysis_deterministic)
  moreover have "obj_get db_outage_stored ''id'' \<noteq> obj_get db_outage ''id''"
    by (simp add: obj_get_def db_outage_def db_outage_stored_def)
  ultimately show ?thesis
    by (simp add: db_outage_confidence)
qed



section \<open>Claims about the generators\<close>

text \<open>
  C8 (amended). For an incident and a knowledge-base article, the relevance is
  \<open>clamp01(score / 10)\<close>, where the score counts, among the first 25 tokens of the
  incident's title, description and affected systems in lower case, those of at least
  4 characters that occur in the article's title, summary and tags in lower case. An
  article is among the suggestions, of which there are at most 6, only if its relevance
  is at least \<open>0.25\<close>, that is if at least 3 tokens match; its reason is
  \<open>Partial keyword match\<close> or stronger exactly if the relevance is above \<open>0.4\<close>, which
  takes at least 5 matching tokens. For an incident that has the title
  \<open>SSO callback failure\<close> and neither description nor affected systems, the token \<open>sso\<close>
  is too short to count, the score is at most 2, the relevance at most \<open>0.2\<close>, and no
  article is suggested, whatever its tags.
\<close>

theorem suggestion_relevance:
  "relevance incident a
     = clamp01 (js_div (of_nat (length (filter (\<lambda>t. 4 \<le> length t \<and> str_includes (article_hay a) t)
                                   (take 25 (word_tokens (incident_text incident)))))) 10)
   \<and> (\<forall>s \<in> set (suggestions incident articles).
         \<exists>b \<in> set articles. s = suggestion incident b \<and> fl (25 / 100) \<le> relevance incident b)
   \<and> length (suggestions incident articles) \<le> 6
   \<and> (fl (25 / 100) \<le> relevance incident a
        \<longrightarrow> 3 \<le> match_score (incident_text incident) (article_hay a))
   \<and> ((obj_get (suggestion incident a) ''reason'' = JStr ''Partial keyword match''
         \<or> obj_get (suggestion incident a) ''reason'' = JStr ''Strong tag/title overlap'')
        = (fl (4 / 10) < relevance incident a))
   \<and> (fl (4 / 10) < relevance incident a
        \<longrightarrow> 5 \<le> match_score (incident_text incident) (article_hay a))
   \<and> (str_field incident ''title'' = Some ''SSO callback failure''
        \<and> or_str (str_field incident ''description'') [] = []
        \<and> or_list (str_list_field incident ''affected_systems'') = []
        \<longrightarrow> relevance incident a \<le> fl (2 / 10) \<and> relevance incident a < fl (25 / 100)
            \<and> suggestions incident articles = [])"
proof (intro conjI impI ballI)
  show "relevance incident a
     = clamp01 (js_div (of_nat (length (filter (\<lambda>t. 4 \<le> length t \<and> str_includes (article_hay a) t)
                                   (take 25 (word_tokens (incident_text incident)))))) 10)"
    by (simp only: relevance_def match_score_count)
next
  fix s assume "s \<in> set (suggestions incident articles)"
  with suggestions_subset [of incident articles]
  show "\<exists>b \<in> set articles. s = suggestion incident b \<and> fl (25 / 100) \<le> relevance incident b"
    by blast
next
  show "length (suggestions incident articles) \<le> 6"
    by (simp add: suggestions_def)
next
  assume r: "fl (25 / 100) \<le> relevance incident a"
  show "3 \<le> match_score (incident_text incident) (article_hay a)"
  proof (rule ccontr)
    assume "\<not> 3 \<le> match_score (incident_text incident) (article_hay a)"
    then have "match_score (incident_text incident) (article_hay a) \<le> 2" by simp
    from low_score_relevance [OF this] have "relevance incident a \<le> fl (2 / 10)"
      by (simp only: relevance_def)
    with r tenths_order(3) show False by simp
  qed
next
  show "(obj_get (suggestion incident a) ''reason'' = JStr ''Partial keyword match''
         \<or> obj_get (suggestion incident a) ''reason'' = JStr ''Strong tag/title overlap'')
        = (fl (4 / 10) < relevance incident a)"
    using tenths_order(6) by (auto simp: suggestion_def Let_def obj_get_def)
next
  assume r: "fl (4 / 10) < relevance incident a"
  show "5 \<le> match_score (incident_text incident) (article_hay a)"
  proof (rule ccontr)
    assume "\<not> 5 \<le> match_score (incident_text incident) (article_hay a)"
    then have "match_score (incident_text incident) (article_hay a) \<le> 4" by simp
    from mid_score_relevance [OF this] have "relevance incident a \<le> fl (4 / 10)"
      by (simp only: relevance_def)
    with r show False by simp
  qed
next
  assume t: "str_field incident ''title'' = Some ''SSO callback failure''
        \<and> or_str (str_field incident ''description'') [] = []
        \<and> or_list (str_list_field incident ''affected_systems'') = []"
  have low: "relevance incident b \<le> fl (2 / 10)" for b
    unfolding relevance_def
    by (rule low_score_relevance) (rule title_only_score, simp_all add: t)
  show "relevance incident a \<le> fl (2 / 10)"
    by (rule low)
  show "relevance incident a < fl (25 / 100)"
    using low [of a] tenths_order(3) by simp
  have "\<not> fl (25 / 100) \<le> relevance incident b" for b
    using low [of b] tenths_order(3) by simp
  with suggestions_subset [of incident articles] have "set (suggestions incident articles) = {}"
    by auto
  then show "suggestions incident articles = []"
    by simp
qed

theorem suggestion_relevance_witness:
  "suggestions sso_incident [sso_article] = []
   \<and> relevance sso_incident sso_article < fl (25 / 100)
   \<and> suggestions sso_detailed [sso_article] = [suggestion sso_detailed sso_article]
   \<and> 5 \<le> match_score (incident_text sso_detailed) (article_hay sso_article)
   \<and> obj_get (suggestion sso_detailed sso_article) ''reason'' = JStr ''Partial keyword match''"
proof -
  have title: "str_field sso_incident ''title'' = Some ''SSO callback failure''
        \<and> or_str (str_field sso_incident ''description'') [] = []
        \<and> or_list (str_list_field sso_incident ''affected_systems'') = []"
    by (simp add: str_field_def str_list_field_def or_str_def or_list_def obj_get_def sso_incident_def)
  note t = suggestion_relevance [of sso_incident sso_article "[sso_article]"]
  note d = suggestion_relevance [of sso_detailed sso_article "[sso_article]"]
  from t title have "suggestions sso_incident [sso_article] = []"
    "relevance sso_incident sso_article < fl (25 / 100)"
    by blast+
  moreover have "fl (4 / 10) < relevance sso_detailed sso_article"
    by (simp only: detailed_suggestion(2)) code_simp
  with d have "5 \<le> match_score (incident_text sso_detailed) (article_hay sso_article)"
    by blast
  ultimately show ?thesis
    by (simp add: detailed_suggestion)
qed

text \<open>
  C8 as stated fails for the incident that has the title \<open>SSO callback failure\<close> and
  nothing else, against the article of the seed data tagged \<open>auth\<close>, \<open>sso\<close>, \<open>identity\<close>:
  the two tokens \<open>callback\<close> and \<open>failure\<close> match, the relevance is \<open>0.2\<close>, below \<open>0.25\<close>,
  the reason would be \<open>Weak match\<close>, and the article is not suggested.
\<close>

theorem suggestion_relevance_counterexample:
  "obj_get sso_incident ''title'' = JStr ''SSO callback failure''
   \<and> obj_get sso_article ''tags'' = JArr [JStr ''auth'', JStr ''sso'', JStr ''identity'']
   \<and> relevance sso_incident sso_article = fl (2 / 10)
   \<and> fl (2 / 10) < fl (25 / 100)
   \<and> obj_get (suggestion sso_incident sso_article) ''reason'' = JStr ''Weak match''
   \<and> rows seeded_world ''KnowledgeBaseArticle'' = [sso_article]
   \<and> fst (invoke ''suggestKnowledgeArticles'' sso_payload seeded_world)
        = Inr (response [(''suggestions'', JArr [])])"
  using title_only_suggestion tenths_order(3) seeded_rows(2)
  by (simp add: obj_get_def sso_incident_def sso_article_def)


text \<open>
  C9 (amended). Every call of \<open>generatePredictions\<close> creates exactly four records in
  \<open>PredictiveAlert\<close> and changes no other table: three from the fixed templates
  (severities critical, high, high) and one more for a single system, which is
  \<open>Customer Portal\<close> when none of the incidents listed carries an affected system. All
  four have the status \<open>active\<close>. The \<open>created_date\<close> and \<open>updated_date\<close> of the three
  template alerts are the time of the call, one hour before and two hours before; those
  of the fourth alert are five hours before the time of the call.
\<close>

theorem predictions_created:
  "\<exists>a0 a1 a2 a3 sys.
      fst (generatePredictions w)
        = Inr (response [(''created'', JArr [JObj a0, JObj a1, JObj a2, JObj a3])])
    \<and> rows (snd (generatePredictions w)) ''PredictiveAlert''
        = rows w ''PredictiveAlert'' @ [a0, a1, a2, a3]
    \<and> (\<forall>T. T \<noteq> ''PredictiveAlert'' \<longrightarrow> rows (snd (generatePredictions w)) T = rows w T)
    \<and> map (\<lambda>a. obj_get a ''status'') [a0, a1, a2, a3]
        = [JStr ''active'', JStr ''active'', JStr ''active'', JStr ''active'']
    \<and> map (\<lambda>a. obj_get a ''created_date'') [a0, a1, a2, a3]
        = map (\<lambda>h. JStr (toISOString (clock_src w (clock_n w) - h * 60 * 60 * 1000))) [0, 1, 2, 5]
    \<and> map (\<lambda>a. obj_get a ''updated_date'') [a0, a1, a2, a3]
        = map (\<lambda>h. JStr (toISOString (clock_src w (clock_n w) - h * 60 * 60 * 1000))) [0, 1, 2, 5]
    \<and> map (\<lambda>a. obj_get a ''severity'') [a0, a1, a2]
        = [JStr ''critical'', JStr ''high'', JStr ''high'']
    \<and> map (\<lambda>a. obj_get a ''predicted_issue'') [a0, a1, a2]
        = [JStr ''PostgreSQL Connection Pool Exhaustion During Peak Hours'',
           JStr ''API Gateway Latency Regression'',
           JStr ''Authentication Service Memory Leak Continuation'']
    \<and> obj_get a3 ''affected_systems'' = JArr [JStr sys]
    \<and> obj_get a3 ''predicted_issue'' = JStr (''Elevated risk detected: '' @ sys)
    \<and> ((\<forall>i \<in> set (fst (db_list ''Incident'' (Some ''-created_date'') (Some 50) w)).
           \<forall>s \<in> set (incident_systems i). s = [])
         \<longrightarrow> sys = ''Customer Portal'')"
  by (rule generatePredictions_result)

theorem predictions_created_witness:
  "map (\<lambda>a. obj_get a ''created_date'') (rows (snd (generatePredictions example_world)) ''PredictiveAlert'')
     = [JStr ''2024-11-02T17:45:00.123Z'', JStr ''2024-11-02T16:45:00.123Z'',
        JStr ''2024-11-02T15:45:00.123Z'', JStr ''2024-11-02T12:45:00.123Z'']
   \<and> map (\<lambda>a. obj_get a ''status'') (rows (snd (generatePredictions example_world)) ''PredictiveAlert'')
     = [JStr ''active'', JStr ''active'', JStr ''active'', JStr ''active'']
   \<and> obj_get (last (rows (snd (generatePredictions example_world)) ''PredictiveAlert'')) ''affected_systems''
     = JArr [JStr ''Customer Portal'']"
proof -
  from predictions_created [of example_world] obtain a0 a1 a2 a3 sys where all: "fst (generatePredictions example_world)
        = Inr (response [(''created'', JArr [JObj a0, JObj a1, JObj a2, JObj a3])])
    \<and> rows (snd (generatePredictions example_world)) ''PredictiveAlert''
        = rows example_world ''PredictiveAlert'' @ [a0, a1, a2, a3]
    \<and> (\<forall>T. T \<noteq> ''PredictiveAlert'' \<longrightarrow> rows (snd (generatePredictions example_world)) T = rows example_world T)
    \<and> map (\<lambda>a. obj_get a ''status'') [a0, a1, a2, a3]
        = [JStr ''active'', JStr ''active'', JStr ''active'', JStr ''active'']
    \<and> map (\<lambda>a. obj_get a ''created_date'') [a0, a1, a2, a3]
        = map (\<lambda>h. JStr (toISOString (clock_src example_world (clock_n example_world) - h * 60 * 60 * 1000))) [0, 1, 2, 5]
    \<and> map (\<lambda>a. obj_get a ''updated_date'') [a0, a1, a2, a3]
        = map (\<lambda>h. JStr (toISOString (clock_src example_world (clock_n example_world) - h * 60 * 60 * 1000))) [0, 1, 2, 5]
    \<and> map (\<lambda>a. obj_get a ''severity'') [a0, a1, a2]
        = [JStr ''critical'', JStr ''high'', JStr ''high'']
    \<and> map (\<lambda>a. obj_get a ''predicted_issue'') [a0, a1, a2]
        = [JStr ''PostgreSQL Connection Pool Exhaustion During Peak Hours'',
           JStr ''API Gateway Latency Regression'',
           JStr ''Authentication Service Memory Leak Continuation'']
    \<and> obj_get a3 ''affected_systems'' = JArr [JStr sys]
    \<and> obj_get a3 ''predicted_issue'' = JStr (''Elevated risk detected: '' @ sys)
    \<and> ((\<forall>i \<in> set (fst (db_list ''Incident'' (Some ''-created_date'') (Some 50) example_world)).
           \<forall>s \<in> set (incident_systems i). s = [])
         \<longrightarrow> sys = ''Customer Portal'')"
    by (elim exE)
  note rows = all [THEN conjunct2, THEN conjunct1] and status = all [THEN conjunct2, THEN conjunct2, THEN conjunct2, THEN conjunct1] and cdate = all [THEN conjunct2, THEN conjunct2, THEN conjunct2, THEN conjunct2, THEN conjunct1] and sys = all [THEN conjunct2, THEN conjunct2, THEN conjunct2, THEN conjunct2, THEN conjunct2, THEN conjunct2, THEN conjunct2, THEN conjunct2, THEN conjunct1] and fallback = all [THEN conjunct2, THEN conjunct2, THEN conjunct2, THEN conjunct2, THEN conjunct2, THEN conjunct2, THEN conjunct2, THEN conjunct2, THEN conjunct2, THEN conjunct2]
  have empty: "rows example_world ''PredictiveAlert'' = []"
    by (simp add: rows_def example_world_sel)
  from fallback have "sys = ''Customer Portal''"
    by (simp add: no_incidents)
  with rows status cdate sys show ?thesis
    by (simp add: empty example_world_sel t1 t_hours)
qed

text \<open>
  C9 as stated fails twice. The dates do not go down in steps of one hour: the fourth
  alert is dated five hours before the call, three hours after the third. And the
  system of the fourth alert is the first one in the list of the incidents, newest
  first, not the most frequent one: with \<open>Billing\<close> in two incidents and \<open>Search\<close> in the
  newest one only, the alert is about \<open>Search\<close>.
\<close>

theorem predictions_created_counterexample:
  "map (\<lambda>a. obj_get a ''created_date'') (rows (snd (generatePredictions systems_world)) ''PredictiveAlert'')
     = [JStr ''2024-11-02T17:45:00.123Z'', JStr ''2024-11-02T16:45:00.123Z'',
        JStr ''2024-11-02T15:45:00.123Z'', JStr ''2024-11-02T12:45:00.123Z'']
   \<and> extra_system (fst (db_list ''Incident'' (Some ''-created_date'') (Some 50) systems_world)) = ''Search''
   \<and> count_list (concat (map incident_systems (rows systems_world ''Incident''))) ''Billing'' = 2
   \<and> count_list (concat (map incident_systems (rows systems_world ''Incident''))) ''Search'' = 1"
proof -
  from generatePredictions_result [of systems_world] obtain a0 a1 a2 a3 sys where all: "fst (generatePredictions systems_world)
        = Inr (response [(''created'', JArr [JObj a0, JObj a1, JObj a2, JObj a3])])
    \<and> rows (snd (generatePredictions systems_world)) ''PredictiveAlert''
        = rows systems_world ''PredictiveAlert'' @ [a0, a1, a2, a3]
    \<and> (\<forall>T. T \<noteq> ''PredictiveAlert'' \<longrightarrow> rows (snd (generatePredictions systems_world)) T = rows systems_world T)
    \<and> map (\<lambda>a. obj_get a ''status'') [a0, a1, a2, a3]
        = [JStr ''active'', JStr ''active'', JStr ''active'', JStr ''active'']
    \<and> map (\<lambda>a. obj_get a ''created_date'') [a0, a1, a2, a3]
        = map (\<lambda>h. JStr (toISOString (clock_src systems_world (clock_n systems_world) - h * 60 * 60 * 1000))) [0, 1, 2, 5]
    \<and> map (\<lambda>a. obj_get a ''updated_date'') [a0, a1, a2, a3]
        = map (\<lambda>h. JStr (toISOString (clock_src systems_world (clock_n systems_world) - h * 60 * 60 * 1000))) [0, 1, 2, 5]
    \<and> map (\<lambda>a. obj_get a ''severity'') [a0, a1, a2]
        = [JStr ''critical'', JStr ''high'', JStr ''high'']
    \<and> map (\<lambda>a. obj_get a ''predicted_issue'') [a0, a1, a2]
        = [JStr ''PostgreSQL Connection Pool Exhaustion During Peak Hours'',
           JStr ''API Gateway Latency Regression'',
           JStr ''Authentication Service Memory Leak Continuation'']
    \<and> obj_get a3 ''affected_systems'' = JArr [JStr sys]
    \<and> obj_get a3 ''predicted_issue'' = JStr (''Elevated risk detected: '' @ sys)
    \<and> ((\<forall>i \<in> set (fst (db_list ''Incident'' (Some ''-created_date'') (Some 50) systems_world)).
           \<forall>s \<in> set (incident_systems i). s = [])
         \<longrightarrow> sys = ''Customer Portal'')"
    by (elim exE)
  note rows = all [THEN conjunct2, THEN conjunct1] and cdate = all [THEN conjunct2, THEN conjunct2, THEN conjunct2, THEN conjunct2, THEN conjunct1]
  from rows cdate have "map (\<lambda>a. obj_get a ''created_date'')
      (rows (snd (generatePredictions systems_world)) ''PredictiveAlert'')
     = [JStr ''2024-11-02T17:45:00.123Z'', JStr ''2024-11-02T16:45:00.123Z'',
        JStr ''2024-11-02T15:45:00.123Z'', JStr ''2024-11-02T12:45:00.123Z'']"
    by (simp add: systems_world_sel t1 t_hours)
  then show ?thesis
    using systems_listed systems_counts by simp
qed



end
